theory Spec2Isabelle
  imports Complex_Main "HOL-Library.Multiset"
begin

section \<open>Numeric conventions\<close>

text \<open>
  The program computes with Python and numpy double-precision floats.  Two models of them
  are used.

  The simulation, the phase logic, the performance report and the stability analysis are
  modelled over the mathematical reals: rounding, overflow to infinity and NaN are outside
  that model.  Where the source divides, the divisor being zero is a branch of the model:
  Python floats raise \<open>ZeroDivisionError\<close> there (numpy scalars would give inf or nan with
  a warning, values the reals do not have).  Where the source itself produces \<open>np.inf\<close> as
  a value, the model uses the type \<open>xreal\<close>.

  The trim computation and the control command with its limits depend on overflow,
  infinities and NaN.  They are modelled over the type \<open>double\<close> below: a finite value, an
  infinity or NaN, with the IEEE 754 rules for infinities and NaN written out.  The
  rounding of the exact result of an operation on finite values to a double is the
  parameter \<open>rnd\<close> of every operation: it gives the finite double, or the infinity on
  overflow.  What is proved holds for every \<open>rnd\<close>, hence for round-to-nearest-even.  The
  two zeros are not distinguished, and a decimal literal stands for its own value.
\<close>

datatype error = ZeroDivisionError | IndexError | TypeError | OverflowError

datatype xreal = Finite real | Infinity

text \<open>\<open>np.deg2rad\<close>, \<open>np.rad2deg\<close> and \<open>np.clip\<close>.\<close>

definition deg2rad :: "real \<Rightarrow> real" where
  "deg2rad d = d * (pi / 180)"

definition rad2deg :: "real \<Rightarrow> real" where
  "rad2deg r = r * (180 / pi)"

definition clip :: "real \<Rightarrow> real \<Rightarrow> real \<Rightarrow> real" where
  "clip a lo hi = min (max a lo) hi"

subsection \<open>Doubles with infinities and NaN\<close>

datatype double = Fin real | PInf | NInf | NaN

type_synonym rounding = "real \<Rightarrow> double"

text \<open>
  The rounding used to evaluate examples.  It is exact inside the range of the doubles;
  it gives zero at and below half the smallest subnormal, \<open>1 / 2 ^ 1075\<close>, and an
  infinity from \<open>2 ^ 1024 - 2 ^ 970\<close> on: the underflow and overflow thresholds of
  round-to-nearest-even.  It does not round inside the range; the outcomes of the
  examples (an error, NaN, a limit of the clamp) are those of round-to-nearest-even.
\<close>

definition range_round :: rounding where
  "range_round x =
     (if 2 ^ 1024 - 2 ^ 970 \<le> \<bar>x\<bar> then (if 0 < x then PInf else NInf)
      else if \<bar>x\<bar> \<le> 1 / 2 ^ 1075 then Fin 0
      else Fin x)"

fun fneg :: "double \<Rightarrow> double" where
  "fneg (Fin x) = Fin (- x)"
| "fneg PInf = NInf"
| "fneg NInf = PInf"
| "fneg NaN = NaN"

fun is_negative :: "double \<Rightarrow> bool" where
  "is_negative (Fin x) = (x < 0)"
| "is_negative NInf = True"
| "is_negative PInf = False"
| "is_negative NaN = False"

text \<open>Addition: opposite infinities give NaN.\<close>

fun fadd :: "rounding \<Rightarrow> double \<Rightarrow> double \<Rightarrow> double" where
  "fadd rnd (Fin x) (Fin y) = rnd (x + y)"
| "fadd rnd NaN b = NaN"
| "fadd rnd a NaN = NaN"
| "fadd rnd PInf NInf = NaN"
| "fadd rnd NInf PInf = NaN"
| "fadd rnd PInf b = PInf"
| "fadd rnd a PInf = PInf"
| "fadd rnd NInf b = NInf"
| "fadd rnd a NInf = NInf"

definition fsub :: "rounding \<Rightarrow> double \<Rightarrow> double \<Rightarrow> double" where
  "fsub rnd a b = fadd rnd a (fneg b)"

text \<open>Multiplication: an infinity times zero gives NaN, otherwise the sign rule.\<close>

definition fmul :: "rounding \<Rightarrow> double \<Rightarrow> double \<Rightarrow> double" where
  "fmul rnd a b =
     (case (a, b) of
        (Fin x, Fin y) \<Rightarrow> rnd (x * y)
      | _ \<Rightarrow>
          if a = NaN \<or> b = NaN \<or> a = Fin 0 \<or> b = Fin 0 then NaN
          else if is_negative a \<noteq> is_negative b then NInf
          else PInf)"

text \<open>
  The quotient of IEEE 754, as numpy scalars give it, and the division of Python floats,
  which raises \<open>ZeroDivisionError\<close> on a zero divisor whatever the dividend.
\<close>

definition np_divide :: "rounding \<Rightarrow> double \<Rightarrow> double \<Rightarrow> double" where
  "np_divide rnd a b =
     (case (a, b) of
        (Fin x, Fin y) \<Rightarrow>
          if y = 0 then (if x = 0 then NaN else if 0 < x then PInf else NInf)
          else rnd (x / y)
      | (Fin x, PInf) \<Rightarrow> Fin 0
      | (Fin x, NInf) \<Rightarrow> Fin 0
      | (PInf, Fin y) \<Rightarrow> if y < 0 then NInf else PInf
      | (NInf, Fin y) \<Rightarrow> if y < 0 then PInf else NInf
      | _ \<Rightarrow> NaN)"

definition py_divide :: "rounding \<Rightarrow> double \<Rightarrow> double \<Rightarrow> error + double" where
  "py_divide rnd a b = (if b = Fin 0 then Inl ZeroDivisionError else Inr (np_divide rnd a b))"

text \<open>
  \<open>x ** 2\<close> on a finite Python float: \<open>OverflowError\<close> when the square overflows; a
  square that underflows is zero.
\<close>

definition py_square :: "rounding \<Rightarrow> real \<Rightarrow> error + double" where
  "py_square rnd x = (case rnd (x ^ 2) of Fin r \<Rightarrow> Inr (Fin r) | _ \<Rightarrow> Inl OverflowError)"








section \<open>Aircraft model (aircraft\_model.py)\<close>

text \<open>The attributes set by \<open>AircraftModel.__init__\<close>.\<close>

record aircraft_model =
  mass :: real
  wing_area :: real
  wing_span :: real
  chord :: real
  Ixx :: real
  Iyy :: real
  Izz :: real
  Ixz :: real
  CL0 :: real
  CLalpha :: real
  CLq :: real
  CLde :: real
  CD0 :: real
  CDalpha :: real
  CDde :: real
  Cm0 :: real
  Cmalpha :: real
  Cmq :: real
  Cmde :: real
  CYbeta :: real
  CYdr :: real
  Clbeta :: real
  Clp :: real
  Clr :: real
  Clda :: real
  Cldr :: real
  Cnbeta :: real
  Cnp :: real
  Cnr :: real
  Cnda :: real
  Cndr :: real
  max_thrust :: real
  g :: real
  rho :: real

definition AircraftModel :: aircraft_model where
  "AircraftModel = \<lparr>
     mass = 1100, wing_area = 16.2, wing_span = 11, chord = 1.5,
     Ixx = 1285, Iyy = 1824, Izz = 2666, Ixz = 0,
     CL0 = 0.28, CLalpha = 4.58, CLq = 3.9, CLde = 0.43,
     CD0 = 0.031, CDalpha = 0.13, CDde = 0.06,
     Cm0 = 0.04, Cmalpha = - 0.61, Cmq = - 12.4, Cmde = - 1.28,
     CYbeta = - 0.31, CYdr = 0.187,
     Clbeta = - 0.074, Clp = - 0.410, Clr = 0.107, Clda = 0.134, Cldr = 0.0107,
     Cnbeta = 0.071, Cnp = - 0.0575, Cnr = - 0.125, Cnda = - 0.0011, Cndr = - 0.0726,
     max_thrust = 1200, g = 9.81, rho = 1.225 \<rparr>"

text \<open>The trim dictionary, one field per key, with finite values.\<close>

record trim_state =
  trim_velocity :: real
  trim_alpha :: real
  trim_theta :: real
  trim_q :: real
  trim_altitude :: real
  trim_CL :: real
  trim_CD :: real
  trim_elevator :: real
  trim_thrust :: real

text \<open>
  The dictionary returned by \<open>get_trim_condition\<close>, whose values can be infinite or NaN.
  (\<open>trim_state\<close> above is the same dictionary with finite values, as the linearisation
  reads it.)
\<close>

record trim_values =
  tv_velocity :: double
  tv_alpha :: double
  tv_theta :: double
  tv_q :: double
  tv_altitude :: double
  tv_CL :: double
  tv_CD :: double
  tv_elevator :: double
  tv_thrust :: double

text \<open>
  \<open>get_trim_condition\<close> on Python floats, for a finite velocity and altitude.  The square
  of the velocity can raise \<open>OverflowError\<close>; the three divisions are by \<open>q * wing_area\<close>,
  by \<open>CLalpha\<close> and by \<open>Cmde\<close>, in this order; the source has no other check.
\<close>

definition get_trim_condition ::
    "rounding \<Rightarrow> aircraft_model \<Rightarrow> real \<Rightarrow> real \<Rightarrow> error + trim_values" where
  "get_trim_condition rnd self velocity altitude =
     (case py_square rnd velocity of
        Inl e \<Rightarrow> Inl e
      | Inr v2 \<Rightarrow>
          let qbar = fmul rnd (fmul rnd (Fin 0.5) (Fin (rho self))) v2 in
          (case py_divide rnd (fmul rnd (Fin (mass self)) (Fin (g self)))
                  (fmul rnd qbar (Fin (wing_area self))) of
             Inl e \<Rightarrow> Inl e
           | Inr CL_trim \<Rightarrow>
          (case py_divide rnd (fsub rnd CL_trim (Fin (CL0 self))) (Fin (CLalpha self)) of
             Inl e \<Rightarrow> Inl e
           | Inr alpha_trim \<Rightarrow>
               let CD_trim = fadd rnd (Fin (CD0 self)) (fmul rnd (Fin (CDalpha self)) alpha_trim);
                   thrust_trim = fmul rnd (fmul rnd CD_trim qbar) (Fin (wing_area self))
               in
               (case py_divide rnd
                       (fneg (fadd rnd (Fin (Cm0 self))
                                (fmul rnd (Fin (Cmalpha self)) alpha_trim)))
                       (Fin (Cmde self)) of
                  Inl e \<Rightarrow> Inl e
                | Inr de_trim \<Rightarrow>
                    Inr \<lparr> tv_velocity = Fin velocity, tv_alpha = alpha_trim,
                          tv_theta = alpha_trim, tv_q = Fin 0, tv_altitude = Fin altitude,
                          tv_CL = CL_trim, tv_CD = CD_trim, tv_elevator = de_trim,
                          tv_thrust = thrust_trim \<rparr>))))"

section \<open>Landing controller (landing\_controller.py)\<close>

datatype landing_phase = Approach | Glide_slope | Flare | Touchdown

text \<open>
  The attributes of a \<open>LandingController\<close>: the landing parameters and gains set by
  \<open>__init__\<close> (configuration; callers overwrite them, as the gain sweep of
  example\_usage.py does), then the integrators, the previous errors and the phase, which
  \<open>compute_control\<close> mutates.
\<close>

record LandingController =
  aircraft :: aircraft_model
  glide_slope_angle :: real
  flare_altitude :: real
  touchdown_velocity :: real
  Kp_theta :: real
  Ki_theta :: real
  Kd_theta :: real
  Kp_alt :: real
  Ki_alt :: real
  Kd_alt :: real
  Kp_vel :: real
  Ki_vel :: real
  int_theta :: real
  int_alt :: real
  int_vel :: real
  prev_error_theta :: real
  prev_error_alt :: real
  phase :: landing_phase

definition LandingController_init :: "aircraft_model \<Rightarrow> LandingController" where
  "LandingController_init aircraft_model =
     \<lparr> aircraft = aircraft_model,
       glide_slope_angle = deg2rad (- 3), flare_altitude = 20, touchdown_velocity = 25,
       Kp_theta = 3, Ki_theta = 0.3, Kd_theta = 1.5,
       Kp_alt = 0.08, Ki_alt = 0.01, Kd_alt = 0.5,
       Kp_vel = 0.4, Ki_vel = 0.05,
       int_theta = 0, int_alt = 0, int_vel = 0,
       prev_error_theta = 0, prev_error_alt = 0,
       phase = Approach \<rparr>"

definition reset :: "LandingController \<Rightarrow> LandingController" where
  "reset self = self \<lparr> int_theta := 0, int_alt := 0, int_vel := 0,
                       prev_error_theta := 0, prev_error_alt := 0, phase := Approach \<rparr>"

definition compute_glide_slope_reference :: "LandingController \<Rightarrow> real \<Rightarrow> real" where
  "compute_glide_slope_reference self horizontal_distance =
     (let ref_altitude = - horizontal_distance * tan (glide_slope_angle self)
      in max 0 ref_altitude)"

definition update_phase :: "LandingController \<Rightarrow> real \<Rightarrow> real \<Rightarrow> LandingController" where
  "update_phase self altitude distance_to_touchdown =
     (if altitude \<le> 0.5 then self \<lparr> phase := Touchdown \<rparr>
      else if altitude < flare_altitude self then self \<lparr> phase := Flare \<rparr>
      else if altitude < 200 \<and> distance_to_touchdown < 4000 then self \<lparr> phase := Glide_slope \<rparr>
      else self \<lparr> phase := Approach \<rparr>)"

text \<open>
  The state dictionary read by \<open>compute_control\<close> (the keys of its docstring) and the
  dictionary it returns; the field for key \<open>k\<close> of dictionary \<open>d\<close> is named \<open>d_k\<close>.
\<close>

record flight_state =
  state_velocity :: real
  state_altitude :: real
  state_theta :: real
  state_q :: real
  state_alpha :: real

record control =
  control_elevator :: real
  control_throttle :: real
  control_phase :: landing_phase

text \<open>
  The four branches of \<open>compute_control\<close>, one definition per branch, each returning the
  mutated controller with the elevator and throttle values before the final limits.  The
  branches for approach, glide slope and flare divide by \<open>dt\<close>.  The flare branch also
  divides by \<open>flare_altitude\<close>, which is above 0.5 whenever that branch is reached.
\<close>

definition approach_law ::
    "LandingController \<Rightarrow> flight_state \<Rightarrow> real \<Rightarrow> error + (LandingController \<times> real \<times> real)" where
  "approach_law self state dt =
     (let ref_velocity = 33;
          theta_cmd = 0;
          error_theta = theta_cmd - state_theta state;
          self = self \<lparr> int_theta := int_theta self + error_theta * dt \<rparr> in
      if dt = 0 then Inl ZeroDivisionError
      else
        let d_error_theta = (error_theta - prev_error_theta self) / dt;
            elevator = Kp_theta self * error_theta + Ki_theta self * int_theta self
                       + Kd_theta self * d_error_theta;
            self = self \<lparr> prev_error_theta := error_theta \<rparr>;
            error_vel = ref_velocity - state_velocity state;
            self = self \<lparr> int_vel := int_vel self + error_vel * dt \<rparr>;
            throttle = Kp_vel self * error_vel + Ki_vel self * int_vel self
        in Inr (self, elevator, throttle))"

definition glide_slope_law ::
    "LandingController \<Rightarrow> flight_state \<Rightarrow> real \<Rightarrow> real
       \<Rightarrow> error + (LandingController \<times> real \<times> real)" where
  "glide_slope_law self state distance_to_touchdown dt =
     (let ref_altitude = compute_glide_slope_reference self distance_to_touchdown;
          ref_velocity = 30;
          error_alt = ref_altitude - state_altitude state;
          self = self \<lparr> int_alt := int_alt self + error_alt * dt \<rparr>;
          self = self \<lparr> int_alt := clip (int_alt self) (- 50) 50 \<rparr> in
      if dt = 0 then Inl ZeroDivisionError
      else
        let d_error_alt = (error_alt - prev_error_alt self) / dt;
            theta_cmd = 0.12 * error_alt + 0.02 * int_alt self + 0.4 * d_error_alt;
            theta_cmd = clip theta_cmd (- 0.12) 0.08;
            self = self \<lparr> prev_error_alt := error_alt \<rparr>;
            error_theta = theta_cmd - state_theta state;
            self = self \<lparr> int_theta := int_theta self + error_theta * dt \<rparr>;
            d_error_theta = (error_theta - prev_error_theta self) / dt;
            elevator = Kp_theta self * error_theta + Ki_theta self * int_theta self
                       + Kd_theta self * d_error_theta;
            self = self \<lparr> prev_error_theta := error_theta \<rparr>;
            error_vel = ref_velocity - state_velocity state;
            self = self \<lparr> int_vel := int_vel self + error_vel * dt \<rparr>;
            throttle = 0.7 * (Kp_vel self * error_vel + Ki_vel self * int_vel self)
        in Inr (self, elevator, throttle))"

definition flare_law ::
    "LandingController \<Rightarrow> flight_state \<Rightarrow> real \<Rightarrow> error + (LandingController \<times> real \<times> real)" where
  "flare_law self state dt =
     (if flare_altitude self = 0 then Inl ZeroDivisionError
      else
        let ref_velocity = 27;
            flare_progress = 1 - (state_altitude state / flare_altitude self);
            theta_cmd = deg2rad (- 2) + deg2rad 7 * flare_progress;
            theta_cmd = clip theta_cmd (deg2rad (- 5)) (deg2rad 8);
            error_theta = theta_cmd - state_theta state;
            self = self \<lparr> int_theta := int_theta self + error_theta * dt \<rparr> in
        if dt = 0 then Inl ZeroDivisionError
        else
          let d_error_theta = (error_theta - prev_error_theta self) / dt;
              elevator = 4 * error_theta + 0.8 * int_theta self + 2 * d_error_theta;
              self = self \<lparr> prev_error_theta := error_theta \<rparr>;
              error_vel = ref_velocity - state_velocity state;
              self = self \<lparr> int_vel := int_vel self + error_vel * dt \<rparr>;
              throttle = 0.5 * (Kp_vel self * error_vel + Ki_vel self * int_vel self)
          in Inr (self, elevator, throttle))"

definition touchdown_law ::
    "LandingController \<Rightarrow> flight_state \<Rightarrow> error + (LandingController \<times> real \<times> real)" where
  "touchdown_law self state =
     (let theta_cmd = deg2rad 2;
          error_theta = theta_cmd - state_theta state;
          elevator = 2 * error_theta;
          throttle = 0
      in Inr (self, elevator, throttle))"

text \<open>
  \<open>compute_control\<close>: update the phase, run the branch of the phase, limit the control
  surfaces, and return the controller as mutated together with the control dictionary.
\<close>

definition compute_control ::
    "LandingController \<Rightarrow> flight_state \<Rightarrow> real \<Rightarrow> real \<Rightarrow> error + (LandingController \<times> control)" where
  "compute_control self state distance_to_touchdown dt =
     (let self = update_phase self (state_altitude state) distance_to_touchdown in
      case (case phase self of
              Approach \<Rightarrow> approach_law self state dt
            | Glide_slope \<Rightarrow> glide_slope_law self state distance_to_touchdown dt
            | Flare \<Rightarrow> flare_law self state dt
            | Touchdown \<Rightarrow> touchdown_law self state) of
        Inl e \<Rightarrow> Inl e
      | Inr (self, elevator, throttle) \<Rightarrow>
          Inr (self, \<lparr> control_elevator = clip elevator (- 0.4) 0.4,
                       control_throttle = clip throttle 0 1,
                       control_phase = phase self \<rparr>))"

subsection \<open>The control command over doubles\<close>











section \<open>Flight simulator (simulation.py)\<close>

text \<open>
  The state array \<open>[u, w, q, theta, x, h]\<close> is a 6-tuple, with the two array operations
  the integrator uses.  The simulator object holds only its aircraft model, which is
  passed as the first argument.
\<close>

type_synonym state_vector = "real \<times> real \<times> real \<times> real \<times> real \<times> real"

definition vadd :: "state_vector \<Rightarrow> state_vector \<Rightarrow> state_vector" where
  "vadd a b = (case a of (a0, a1, a2, a3, a4, a5) \<Rightarrow> case b of (b0, b1, b2, b3, b4, b5) \<Rightarrow>
     (a0 + b0, a1 + b1, a2 + b2, a3 + b3, a4 + b4, a5 + b5))"

definition smul :: "real \<Rightarrow> state_vector \<Rightarrow> state_vector" where
  "smul c a = (case a of (a0, a1, a2, a3, a4, a5) \<Rightarrow>
     (c * a0, c * a1, c * a2, c * a3, c * a4, c * a5))"

text \<open>\<open>np.arctan2 y x\<close> on reals.\<close>

definition arctan2 :: "real \<Rightarrow> real \<Rightarrow> real" where
  "arctan2 y x =
     (if 0 < x then arctan (y / x)
      else if x < 0 then (if 0 \<le> y then arctan (y / x) + pi else arctan (y / x) - pi)
      else if 0 < y then pi / 2
      else if y < 0 then - (pi / 2)
      else 0)"

definition longitudinal_dynamics ::
    "aircraft_model \<Rightarrow> state_vector \<Rightarrow> real \<Rightarrow> control \<Rightarrow> error + state_vector" where
  "longitudinal_dynamics ac state t control =
     (case state of (u, w, q, theta, x, h) \<Rightarrow>
        let V = sqrt (u ^ 2 + w ^ 2);
            alpha = arctan2 w u;
            q_bar = 0.5 * rho ac * V ^ 2;
            elevator = control_elevator control;
            throttle = control_throttle control;
            CL = CL0 ac + CLalpha ac * alpha + CLde ac * elevator;
            CL = clip CL (- 1.5) 1.8;
            CD = CD0 ac + CDalpha ac * alpha ^ 2 + CDde ac * \<bar>elevator\<bar>;
            CD = max CD 0.02;
            L = q_bar * wing_area ac * CL;
            D = q_bar * wing_area ac * CD;
            T = throttle * max_thrust ac;
            X = T * cos alpha - D - mass ac * g ac * sin theta;
            Z = - T * sin alpha - L + mass ac * g ac * cos theta
        in
        if 2 * V = 0 then Inl ZeroDivisionError
        else
          let Cm = Cm0 ac + Cmalpha ac * alpha + Cmq ac * q * chord ac / (2 * V)
                   + Cmde ac * elevator;
              M = q_bar * wing_area ac * chord ac * Cm
          in
          if mass ac = 0 \<or> Iyy ac = 0 then Inl ZeroDivisionError
          else
            let u_dot = X / mass ac + w * q;
                w_dot = Z / mass ac - u * q;
                q_dot = M / Iyy ac;
                theta_dot = q;
                x_dot = u * cos theta + w * sin theta;
                h_dot = u * sin theta - w * cos theta
            in Inr (u_dot, w_dot, q_dot, theta_dot, x_dot, h_dot))"

text \<open>The \<open>initial_state\<close> dictionary; \<open>x_touchdown\<close> is the one optional key.\<close>

record initial_state =
  initial_u :: real
  initial_w :: real
  initial_q :: real
  initial_theta :: real
  initial_x :: real
  initial_h :: real
  initial_x_touchdown :: "real option"

text \<open>
  The classical Runge-Kutta step of the loop body, with the same control at the four
  stages, followed by the three bounds on forward velocity, pitch rate and pitch angle.
\<close>

definition rk4_step ::
    "aircraft_model \<Rightarrow> state_vector \<Rightarrow> real \<Rightarrow> control \<Rightarrow> real \<Rightarrow> error + state_vector" where
  "rk4_step ac state t control dt =
     (case longitudinal_dynamics ac state t control of
        Inl e \<Rightarrow> Inl e
      | Inr k1 \<Rightarrow>
     (case longitudinal_dynamics ac (vadd state (smul (0.5 * dt) k1)) (t + 0.5 * dt) control of
        Inl e \<Rightarrow> Inl e
      | Inr k2 \<Rightarrow>
     (case longitudinal_dynamics ac (vadd state (smul (0.5 * dt) k2)) (t + 0.5 * dt) control of
        Inl e \<Rightarrow> Inl e
      | Inr k3 \<Rightarrow>
     (case longitudinal_dynamics ac (vadd state (smul dt k3)) (t + dt) control of
        Inl e \<Rightarrow> Inl e
      | Inr k4 \<Rightarrow>
          (case vadd state (smul (dt / 6)
                   (vadd (vadd (vadd k1 (smul 2 k2)) (smul 2 k3)) k4)) of
             (s0, s1, s2, s3, s4, s5) \<Rightarrow>
               Inr (clip s0 18 45, s1, clip s2 (- 0.5) 0.5, clip s3 (- 0.5) 0.5, s4, s5))))))"

text \<open>
  The dictionary \<open>current_state\<close> built from the state array at the start of each
  iteration (its key \<open>x\<close> is not read by the controller).
\<close>

definition current_state :: "state_vector \<Rightarrow> flight_state" where
  "current_state state =
     (case state of (u, w, q, theta, x, h) \<Rightarrow>
        let V = sqrt (u ^ 2 + w ^ 2);
            alpha = arctan2 w u
        in \<lparr> state_velocity = V, state_altitude = h, state_theta = theta,
             state_q = q, state_alpha = alpha \<rparr>)"

text \<open>
  The \<open>while\<close> loop of \<open>simulate_landing\<close>.  The loop may run forever (a non-positive
  \<open>dt\<close> with the aircraft staying above the ground), so it is a partial function: \<open>None\<close>
  is a call that does not return, \<open>Some (Inl e)\<close> one that raises, \<open>Some (Inr r)\<close> one that
  returns.  The state is appended to the history before the ground-contact check; the
  assignment \<open>state[5] = 0\<close> before \<open>break\<close> changes only the local array, which is not
  returned.  The controller is mutated by the calls, so it is returned as well.  Inside
  the simulation the operands are numpy scalars, so a run whose control step or dynamics
  divides by zero (\<open>dt = 0\<close>, zero airspeed) goes on with inf or nan in the program;
  in this model it ends with the error value.
\<close>

partial_function (option) simulate_loop ::
    "aircraft_model \<Rightarrow> real \<Rightarrow> real \<Rightarrow> real \<Rightarrow>
     LandingController \<times> real \<times> state_vector \<times> real list \<times> state_vector list \<times> control list \<Rightarrow>
     (error + (LandingController \<times> real list \<times> state_vector list \<times> control list)) option" where
  "simulate_loop ac x_touchdown duration dt loop_state =
     (case loop_state of
        (controller, t, state, time_history, state_history, control_history) \<Rightarrow>
     (case state of (u, w, q, theta, x, h) \<Rightarrow>
        if t < duration \<and> h > 0 then
          let distance_to_touchdown = x_touchdown - x in
          (case compute_control controller (current_state state) distance_to_touchdown dt of
             Inl e \<Rightarrow> Some (Inl e)
           | Inr (controller, control) \<Rightarrow>
          (case rk4_step ac state t control dt of
             Inl e \<Rightarrow> Some (Inl e)
           | Inr state \<Rightarrow>
               let t = t + dt;
                   time_history = time_history @ [t];
                   state_history = state_history @ [state];
                   control_history = control_history @ [control]
               in
               if snd (snd (snd (snd (snd state)))) \<le> 0
               then Some (Inr (controller, time_history, state_history, control_history))
               else simulate_loop ac x_touchdown duration dt
                      (controller, t, state, time_history, state_history, control_history)))
        else Some (Inr (controller, time_history, state_history, control_history))))"

definition simulate_landing ::
    "aircraft_model \<Rightarrow> LandingController \<Rightarrow> initial_state \<Rightarrow> real \<Rightarrow> real \<Rightarrow>
     (error + (LandingController \<times> real list \<times> state_vector list \<times> control list)) option" where
  "simulate_landing ac controller initial duration dt =
     (let state = (initial_u initial, initial_w initial, initial_q initial,
                   initial_theta initial, initial_x initial, initial_h initial);
          x_touchdown = (case initial_x_touchdown initial of None \<Rightarrow> 3000 | Some v \<Rightarrow> v);
          time_history = [0];
          state_history = [state];
          control_history = [];
          controller = reset controller;
          t = 0
      in simulate_loop ac x_touchdown duration dt
           (controller, t, state, time_history, state_history, control_history))"


text \<open>
  \<open>evaluate_landing_performance\<close>.  The loop over \<open>enumerate(state_history)\<close> that
  collects the glide-slope errors is a recursion carrying the index; \<open>np.mean\<close> and
  \<open>np.max\<close> are only applied to a non-empty list.
\<close>

record performance =
  touchdown_speed_ms :: real
  touchdown_vertical_rate_ms :: real
  touchdown_pitch_deg :: real
  mean_glide_slope_error_m :: real
  max_glide_slope_error_m :: real
  landing_success :: bool

fun glide_slope_errors :: "nat \<Rightarrow> state_vector list \<Rightarrow> control list \<Rightarrow> real list" where
  "glide_slope_errors i [] control_history = []"
| "glide_slope_errors i (state # rest) control_history =
     (if control_history \<noteq> [] \<and> i < length control_history then
        if control_phase (control_history ! i) = Glide_slope then
          (case state of (u, w, q, theta, x, h) \<Rightarrow>
             let x_touchdown = 3000;
                 distance = x_touchdown - x
             in
             if distance > 0 then
               let ref_h = distance * tan (deg2rad 3);
                   err = \<bar>h - ref_h\<bar>
               in err # glide_slope_errors (Suc i) rest control_history
             else glide_slope_errors (Suc i) rest control_history)
        else glide_slope_errors (Suc i) rest control_history
      else glide_slope_errors (Suc i) rest control_history)"

definition np_mean :: "real list \<Rightarrow> real" where
  "np_mean xs = sum_list xs / real (length xs)"

definition np_max :: "real list \<Rightarrow> real" where
  "np_max xs = fold max (tl xs) (hd xs)"

definition evaluate_landing_performance ::
    "real list \<Rightarrow> state_vector list \<Rightarrow> control list \<Rightarrow> error + performance" where
  "evaluate_landing_performance time_history state_history control_history =
     (if state_history = [] then Inl IndexError
      else
        (case last state_history of (u_td, w_td, q_td, theta_td, x_td, h_td) \<Rightarrow>
           let V_td = sqrt (u_td ^ 2 + w_td ^ 2);
               touchdown_speed = V_td;
               touchdown_rate = - w_td;
               touchdown_pitch = rad2deg theta_td;
               errors = glide_slope_errors 0 state_history control_history
           in Inr \<lparr> touchdown_speed_ms = touchdown_speed,
                    touchdown_vertical_rate_ms = touchdown_rate,
                    touchdown_pitch_deg = touchdown_pitch,
                    mean_glide_slope_error_m = (if errors \<noteq> [] then np_mean errors else 0),
                    max_glide_slope_error_m = (if errors \<noteq> [] then np_max errors else 0),
                    landing_success = (\<bar>touchdown_rate\<bar> < 3 \<and> touchdown_speed > 18
                                       \<and> touchdown_speed < 35) \<rparr>))"

section \<open>Linearisation and stability analysis (aircraft\_model.py, stability\_analysis.py)\<close>

text \<open>
  \<open>get_longitudinal_matrices\<close>: the matrices are lists of rows.  The derivatives divide
  by \<open>m * V\<close>, \<open>Iy\<close>, \<open>2 * Iy * V\<close> and \<open>m\<close>.
\<close>

definition get_longitudinal_matrices ::
    "aircraft_model \<Rightarrow> trim_state \<Rightarrow> error + (real list list \<times> real list list)" where
  "get_longitudinal_matrices self trim_condition =
     (let V = trim_velocity trim_condition;
          alpha = trim_alpha trim_condition;
          q_bar = 0.5 * rho self * V ^ 2;
          S = wing_area self;
          c = chord self;
          m = mass self;
          Iy = Iyy self
      in
      if m * V = 0 \<or> Iy = 0 \<or> 2 * Iy * V = 0 \<or> m = 0 then Inl ZeroDivisionError
      else
        let Xu = - (2 * CD0 self * q_bar * S) / (m * V);
            Xw = (CLalpha self - 2 * CL0 self) * q_bar * S / (m * V);
            Zu = - (2 * CL0 self * q_bar * S) / (m * V);
            Zw = - (CLalpha self + CD0 self) * q_bar * S / (m * V);
            Zq = - V;
            Mu = 0;
            Mw = Cmalpha self * q_bar * S * c / Iy;
            Mq = Cmq self * q_bar * S * c ^ 2 / (2 * Iy * V);
            Xde = 0;
            Xdt = max_thrust self / m;
            Zde = CLde self * q_bar * S / m;
            Zdt = 0;
            Mde = Cmde self * q_bar * S * c / Iy;
            Mdt = 0;
            A = [[Xu, Xw, 0, - g self * cos alpha],
                 [Zu, Zw, V + Zq, - g self * sin alpha],
                 [Mu, Mw, Mq, 0],
                 [0, 0, 1, 0]];
            B = [[Xde, Xdt],
                 [Zde, Zdt],
                 [Mde, Mdt],
                 [0, 0]]
        in Inr (A, B))"

text \<open>
  The dictionary of a mode.  A real mode has \<open>None\<close> under \<open>damping_ratio\<close>,
  \<open>natural_frequency\<close> and \<open>period\<close> and no key \<open>damped_frequency\<close>; a complex mode has no
  key \<open>time_constant\<close>.  The keys of the result are \<open>mode_1\<close>, \<open>mode_2\<close>, ... and the two
  aliases; the result is an association list in insertion order.
\<close>

datatype mode_type = Real_type | Complex_type

datatype stability = Stable | Unstable

record mode =
  mode_eigenvalue :: complex
  mode_type :: mode_type
  mode_stability :: stability
  mode_time_constant :: "xreal option"
  mode_damping_ratio :: "real option"
  mode_natural_frequency :: "real option"
  mode_damped_frequency :: "real option"
  mode_period :: "xreal option"

datatype mode_key = Mode nat | Short_period | Phugoid

text \<open>\<open>np.isclose\<close> with its default tolerances \<open>rtol = 1e-05\<close>, \<open>atol = 1e-08\<close>.\<close>

definition isclose :: "complex \<Rightarrow> complex \<Rightarrow> bool" where
  "isclose a b = (cmod (a - b) \<le> 1 / 10 ^ 8 + (1 / 10 ^ 5) * cmod b)"

text \<open>
  One iteration of the loop over \<open>enumerate(eigenvalues)\<close>: the entry it stores, if any.
  In the complex branch the imaginary part is not zero, so \<open>omega_n\<close> is positive.
\<close>

definition identify_mode :: "complex list \<Rightarrow> nat \<Rightarrow> (mode_key \<times> mode) list" where
  "identify_mode eigenvalues i =
     (let eig = eigenvalues ! i in
      if Im eig = 0 then
        let time_const = (if Re eig \<noteq> 0 then Finite (- 1 / Re eig) else Infinity);
            stab = (if Re eig < 0 then Stable else Unstable)
        in [(Mode (i + 1),
             \<lparr> mode_eigenvalue = eig, mode_type = Real_type, mode_stability = stab,
               mode_time_constant = Some time_const, mode_damping_ratio = None,
               mode_natural_frequency = None, mode_damped_frequency = None,
               mode_period = None \<rparr>)]
      else if i > 0 \<and> isclose (eigenvalues ! (i - 1)) (cnj eig) then []
      else
        let omega_n = cmod eig;
            zeta = - Re eig / omega_n;
            omega_d = Im eig;
            per = (if omega_d \<noteq> 0 then Finite (2 * pi / \<bar>omega_d\<bar>) else Infinity);
            stab = (if Re eig < 0 then Stable else Unstable)
        in [(Mode (i + 1),
             \<lparr> mode_eigenvalue = eig, mode_type = Complex_type, mode_stability = stab,
               mode_time_constant = None, mode_damping_ratio = Some zeta,
               mode_natural_frequency = Some omega_n, mode_damped_frequency = Some \<bar>omega_d\<bar>,
               mode_period = Some per \<rparr>)])"

definition identify_modes :: "complex list \<Rightarrow> (mode_key \<times> mode) list" where
  "identify_modes eigenvalues = concat (map (identify_mode eigenvalues) [0..<length eigenvalues])"

text \<open>
  The sort key \<open>x[1]['natural_frequency']\<close>; every entry of type complex carries a
  natural frequency, so the default is never used on \<open>complex_modes\<close>.
\<close>

definition frequency_key :: "mode_key \<times> mode \<Rightarrow> real" where
  "frequency_key x = (case mode_natural_frequency (snd x) of Some f \<Rightarrow> f | None \<Rightarrow> 0)"

text \<open>
  The aliasing step.  Python's \<open>sorted(..., reverse=True)\<close> is stable and keeps the
  original order of equal keys: it is the stable sort by the negated key.
\<close>

definition identify_specific_modes :: "(mode_key \<times> mode) list \<Rightarrow> (mode_key \<times> mode) list" where
  "identify_specific_modes modes =
     (let complex_modes = filter (\<lambda>kv. mode_type (snd kv) = Complex_type) modes in
      if length complex_modes \<ge> 2 then
        let sorted_complex = sort_key (\<lambda>kv. - frequency_key kv) complex_modes;
            short_period = snd (sorted_complex ! 0);
            phugoid = snd (sorted_complex ! 1)
        in modes @ [(Short_period, short_period), (Phugoid, phugoid)]
      else modes)"

text \<open>
  \<open>analyze_longitudinal_stability\<close>.  The eigenvalue routine \<open>scipy.linalg.eig\<close> and
  \<open>np.argsort\<close> are library code, taken as the parameters \<open>eig\<close> and \<open>argsort\<close>;
  \<open>[::-1]\<close> reverses the index array, and indexing with it fails on an index out of range.
\<close>

definition analyze_longitudinal_stability ::
    "(real list list \<Rightarrow> complex list) \<Rightarrow> (real list \<Rightarrow> nat list) \<Rightarrow>
     aircraft_model \<Rightarrow> trim_state \<Rightarrow> error + (mode_key \<times> mode) list" where
  "analyze_longitudinal_stability eig argsort ac trim_condition =
     (case get_longitudinal_matrices ac trim_condition of
        Inl e \<Rightarrow> Inl e
      | Inr (A, B) \<Rightarrow>
          let eigenvalues = eig A;
              idx = rev (argsort (map Re eigenvalues))
          in
          if \<exists>i \<in> set idx. i \<ge> length eigenvalues then Inl IndexError
          else
            let eigenvalues = map (\<lambda>i. eigenvalues ! i) idx;
                modes = identify_modes eigenvalues
            in Inr (identify_specific_modes modes))"

text \<open>
  \<open>evaluate_handling_qualities\<close>.  Comparing the \<open>None\<close> of a real mode with a number
  raises \<open>TypeError\<close>.  The time to double is a quotient of numpy scalars, for which a
  positive number divided by zero is \<open>inf\<close>.
\<close>

record short_period_assessment =
  sp_damping_ratio :: real
  sp_natural_frequency :: "real option"
  sp_level :: nat
  sp_acceptable :: bool

record phugoid_assessment =
  ph_damping_ratio :: real
  ph_period :: "xreal option"
  ph_level :: nat
  ph_acceptable :: bool

record hq_assessment =
  hq_short_period :: "short_period_assessment option"
  hq_phugoid :: "phugoid_assessment option"

fun xgreater :: "xreal \<Rightarrow> real \<Rightarrow> bool" where
  "xgreater Infinity r = True"
| "xgreater (Finite a) r = (a > r)"

definition time_to_double :: "complex \<Rightarrow> xreal" where
  "time_to_double eigenvalue =
     (if \<bar>Re eigenvalue\<bar> = 0 then Infinity else Finite (ln 2 / \<bar>Re eigenvalue\<bar>))"

definition assess_short_period :: "mode \<Rightarrow> error + short_period_assessment" where
  "assess_short_period sp =
     (case mode_damping_ratio sp of
        None \<Rightarrow> Inl TypeError
      | Some zeta_sp \<Rightarrow>
          let omega_sp = mode_natural_frequency sp;
              sp_level = (if 0.35 \<le> zeta_sp \<and> zeta_sp \<le> 1.30 then 1
                          else if 0.25 \<le> zeta_sp \<and> zeta_sp \<le> 2.00 then 2
                          else if zeta_sp \<ge> 0.15 then 3
                          else 4)
          in Inr \<lparr> sp_damping_ratio = zeta_sp, sp_natural_frequency = omega_sp,
                   sp_level = sp_level, sp_acceptable = (sp_level \<le> 3) \<rparr>)"

definition assess_phugoid :: "mode \<Rightarrow> error + phugoid_assessment" where
  "assess_phugoid ph =
     (case mode_damping_ratio ph of
        None \<Rightarrow> Inl TypeError
      | Some zeta_ph \<Rightarrow>
          let ph_level = (if zeta_ph \<ge> 0.04 then 1
                          else if zeta_ph > 0 then 2
                          else
                            let time_double = time_to_double (mode_eigenvalue ph)
                            in if xgreater time_double 55 then 3 else 4)
          in Inr \<lparr> ph_damping_ratio = zeta_ph, ph_period = mode_period ph,
                   ph_level = ph_level, ph_acceptable = (ph_level \<le> 3) \<rparr>)"

definition evaluate_handling_qualities ::
    "(real list list \<Rightarrow> complex list) \<Rightarrow> (real list \<Rightarrow> nat list) \<Rightarrow>
     aircraft_model \<Rightarrow> trim_state \<Rightarrow> error + hq_assessment" where
  "evaluate_handling_qualities eig argsort ac trim_condition =
     (case analyze_longitudinal_stability eig argsort ac trim_condition of
        Inl e \<Rightarrow> Inl e
      | Inr modes \<Rightarrow>
          (case (case map_of modes Short_period of
                   None \<Rightarrow> Inr None
                 | Some sp \<Rightarrow> map_sum id Some (assess_short_period sp)) of
             Inl e \<Rightarrow> Inl e
           | Inr sp_entry \<Rightarrow>
          (case (case map_of modes Phugoid of
                   None \<Rightarrow> Inr None
                 | Some ph \<Rightarrow> map_sum id Some (assess_phugoid ph)) of
             Inl e \<Rightarrow> Inl e
           | Inr ph_entry \<Rightarrow>
               Inr \<lparr> hq_short_period = sp_entry, hq_phugoid = ph_entry \<rparr>)))"

section \<open>Properties\<close>

subsection \<open>Trim condition\<close>

text \<open>
  A positive velocity is not enough for \<open>get_trim_condition\<close> to return.  At
  \<open>V = 2 ^ 512\<close> the square \<open>velocity ** 2\<close> overflows and Python raises \<open>OverflowError\<close>;
  at \<open>V = 1 / 2 ^ 540\<close> the square underflows to zero, so \<open>q * wing_area\<close> is zero and the
  division raises \<open>ZeroDivisionError\<close>.
\<close>

theorem trim_overflow_underflow_counterexample:
  "(0 :: real) < 2 ^ 512
   \<and> get_trim_condition range_round AircraftModel (2 ^ 512) 0 = Inl OverflowError
   \<and> (0 :: real) < 1 / 2 ^ 540
   \<and> get_trim_condition range_round AircraftModel (1 / 2 ^ 540) 0 = Inl ZeroDivisionError"
  by (simp add: get_trim_condition_def py_square_def py_divide_def fmul_def range_round_def
        AircraftModel_def Let_def power_divide flip: power_mult)

text \<open>
  C4: for every velocity \<open>V > 0\<close> and every altitude, on the repository's aircraft:
  \<open>get_trim_condition\<close> raises \<open>OverflowError\<close> when \<open>V ** 2\<close> overflows; otherwise it
  raises \<open>ZeroDivisionError\<close> when the computed product \<open>0.5 * rho * V ** 2 * wing_area\<close>
  is zero; otherwise it returns a trim dictionary whose lift coefficient is the double
  quotient of \<open>mass * g\<close> by that product, each operation rounded, in the order of the
  source, and whose velocity is \<open>V\<close> itself.  This holds for every rounding.  With
  \<open>V = 30\<close>, where the example rounding is exact, the lift coefficient is
  \<open>1100 * 9.81 / (0.5 * 1.225 * 30 ^ 2 * 16.2)\<close>.
\<close>

theorem trim_lift_coefficient:
  assumes "0 < V"
  shows "case py_square rnd V of
           Inl e \<Rightarrow> get_trim_condition rnd AircraftModel V altitude = Inl OverflowError
         | Inr v2 \<Rightarrow>
             if fmul rnd (fmul rnd (fmul rnd (Fin 0.5) (Fin (rho AircraftModel))) v2)
                  (Fin (wing_area AircraftModel)) = Fin 0
             then get_trim_condition rnd AircraftModel V altitude = Inl ZeroDivisionError
             else \<exists>trim. get_trim_condition rnd AircraftModel V altitude = Inr trim
                    \<and> tv_CL trim =
                        np_divide rnd
                          (fmul rnd (Fin (mass AircraftModel)) (Fin (g AircraftModel)))
                          (fmul rnd
                             (fmul rnd (fmul rnd (Fin 0.5) (Fin (rho AircraftModel))) v2)
                             (Fin (wing_area AircraftModel)))
                    \<and> tv_velocity trim = Fin V"
  by (auto simp add: get_trim_condition_def py_square_def py_divide_def AircraftModel_def Let_def
        split: double.splits)

theorem trim_lift_coefficient_witness:
  "(0 :: real) < 30
   \<and> (\<exists>trim. get_trim_condition range_round AircraftModel 30 0 = Inr trim
         \<and> tv_CL trim = Fin (1100 * 9.81 / (0.5 * 1.225 * 30 ^ 2 * 16.2))
         \<and> tv_velocity trim = Fin 30)"
proof -
  have sq: "py_square range_round 30 = Inr (Fin 900)"
    by (simp add: py_square_def range_round_def)
  have qS: "fmul range_round (fmul range_round (fmul range_round (Fin 0.5)
                 (Fin (rho AircraftModel))) (Fin 900)) (Fin (wing_area AircraftModel))
            = Fin (0.5 * 1.225 * 900 * 16.2)"
    by (simp add: fmul_def range_round_def AircraftModel_def)
  have mg: "fmul range_round (Fin (mass AircraftModel)) (Fin (g AircraftModel))
            = Fin (1100 * 9.81)"
    by (simp add: fmul_def range_round_def AircraftModel_def)
  have dv: "np_divide range_round (Fin (1100 * 9.81)) (Fin (0.5 * 1.225 * 900 * 16.2))
            = Fin (1100 * 9.81 / (0.5 * 1.225 * 30 ^ 2 * 16.2))"
    by (simp add: np_divide_def range_round_def)
  have h: "(0 :: real) < 30" by simp
  from trim_lift_coefficient [OF h, of range_round 0]
  show ?thesis
    unfolding sq sum.case qS mg dv by simp
qed

text \<open>
  The failures of \<open>get_trim_condition\<close> are not those of a non-positive wing area or
  dynamic pressure.  With the wing area \<open>-16.2\<close> and \<open>V = 30\<close> it returns a trim
  dictionary (with a negative lift coefficient).  With the repository's positive wing
  area, density and mass, and a positive dynamic pressure, it raises \<open>OverflowError\<close> at
  \<open>V = 2 ^ 512\<close> and \<open>ZeroDivisionError\<close> at \<open>V = 1 / 2 ^ 540\<close>.
\<close>

theorem trim_failure_counterexample:
  "wing_area (AircraftModel \<lparr> wing_area := - 16.2 \<rparr>) \<le> 0
   \<and> (\<exists>trim. get_trim_condition range_round (AircraftModel \<lparr> wing_area := - 16.2 \<rparr>) 30 0 = Inr trim
          \<and> tv_CL trim = Fin (1100 * 9.81 / (0.5 * 1.225 * 30 ^ 2 * (- 16.2))))
   \<and> (0 :: real) < 2 ^ 512 \<and> 0 < wing_area AircraftModel
   \<and> 0 < 0.5 * rho AircraftModel * (2 ^ 512) ^ 2
   \<and> get_trim_condition range_round AircraftModel (2 ^ 512) 0 = Inl OverflowError
   \<and> (0 :: real) < 1 / 2 ^ 540
   \<and> 0 < 0.5 * rho AircraftModel * (1 / 2 ^ 540) ^ 2
   \<and> get_trim_condition range_round AircraftModel (1 / 2 ^ 540) 0 = Inl ZeroDivisionError"
  by (simp add: get_trim_condition_def py_square_def py_divide_def np_divide_def fmul_def fsub_def
        range_round_def AircraftModel_def Let_def power_divide flip: power_mult)

text \<open>
  C9: for an aircraft whose \<open>CLalpha\<close> and \<open>Cmde\<close> are not zero (as in the repository's
  table), any velocity and any altitude, \<open>get_trim_condition\<close> fails exactly in two
  cases: it raises \<open>OverflowError\<close> when \<open>velocity ** 2\<close> overflows, and otherwise
  \<open>ZeroDivisionError\<close> when the computed product \<open>0.5 * rho * velocity ** 2 * wing_area\<close>
  is zero; in every other case, a negative wing area included, it returns a trim
  dictionary.  The errors are Python's own: the source has no check of its inputs.
  On the repository's aircraft: a trim dictionary at \<open>V = 33\<close>, \<open>ZeroDivisionError\<close> at
  \<open>V = 0\<close>, \<open>OverflowError\<close> at \<open>V = 2 ^ 600\<close>.
\<close>

theorem trim_failure_conditions:
  assumes "CLalpha self \<noteq> 0" and "Cmde self \<noteq> 0"
  shows "case py_square rnd V of
           Inl e \<Rightarrow> get_trim_condition rnd self V altitude = Inl OverflowError
         | Inr v2 \<Rightarrow>
             if fmul rnd (fmul rnd (fmul rnd (Fin 0.5) (Fin (rho self))) v2)
                  (Fin (wing_area self)) = Fin 0
             then get_trim_condition rnd self V altitude = Inl ZeroDivisionError
             else \<exists>trim. get_trim_condition rnd self V altitude = Inr trim"
  using assms
  by (auto simp add: get_trim_condition_def py_square_def py_divide_def Let_def
        split: double.splits)

theorem trim_failure_conditions_witness:
  "CLalpha AircraftModel \<noteq> 0 \<and> Cmde AircraftModel \<noteq> 0
   \<and> (\<exists>trim. get_trim_condition range_round AircraftModel 33 0 = Inr trim)
   \<and> get_trim_condition range_round AircraftModel 0 0 = Inl ZeroDivisionError
   \<and> get_trim_condition range_round AircraftModel (2 ^ 600) 0 = Inl OverflowError"
proof -
  have a: "CLalpha AircraftModel \<noteq> 0" and b: "Cmde AircraftModel \<noteq> 0"
    by (simp_all add: AircraftModel_def)
  have sq33: "py_square range_round 33 = Inr (Fin 1089)"
    by (simp add: py_square_def range_round_def)
  have qS33: "fmul range_round (fmul range_round (fmul range_round (Fin 0.5)
                 (Fin (rho AircraftModel))) (Fin 1089)) (Fin (wing_area AircraftModel))
              \<noteq> Fin 0"
    by (simp add: fmul_def range_round_def AircraftModel_def)
  have sq0: "py_square range_round 0 = Inr (Fin 0)"
    by (simp add: py_square_def range_round_def)
  have qS0: "fmul range_round (fmul range_round (fmul range_round (Fin 0.5)
                 (Fin (rho AircraftModel))) (Fin 0)) (Fin (wing_area AircraftModel))
              = Fin 0"
    by (simp add: fmul_def range_round_def AircraftModel_def)
  have sqbig: "py_square range_round (2 ^ 600) = Inl OverflowError"
    by (simp add: py_square_def range_round_def flip: power_mult)
  from trim_failure_conditions [OF a b, of range_round 33 0]
  have r33: "\<exists>trim. get_trim_condition range_round AircraftModel 33 0 = Inr trim"
    unfolding sq33 sum.case using qS33 by simp
  from trim_failure_conditions [OF a b, of range_round 0 0]
  have r0: "get_trim_condition range_round AircraftModel 0 0 = Inl ZeroDivisionError"
    unfolding sq0 sum.case using qS0 by simp
  from trim_failure_conditions [OF a b, of range_round "2 ^ 600" 0]
  have rbig: "get_trim_condition range_round AircraftModel (2 ^ 600) 0 = Inl OverflowError"
    unfolding sqbig sum.case by simp
  from a b r33 r0 rbig show ?thesis by blast
qed

subsection \<open>Landing controller\<close>

lemma clip_bounds: "lo \<le> hi \<Longrightarrow> lo \<le> clip a lo hi \<and> clip a lo hi \<le> hi"
  by (simp add: clip_def)

lemma phase_update_phase_cases:
  "phase (update_phase self a d) =
     (if a \<le> 0.5 then Touchdown else if a < flare_altitude self then Flare
      else if a < 200 \<and> d < 4000 then Glide_slope else Approach)"
  by (simp add: update_phase_def)

lemma update_phase_flare_altitude [simp]:
  "flare_altitude (update_phase self a d) = flare_altitude self"
  by (simp add: update_phase_def)

lemma approach_law_returns:
  "dt \<noteq> 0 \<Longrightarrow> \<exists>r. approach_law self state dt = Inr r \<and> phase (fst r) = phase self"
  by (simp add: approach_law_def Let_def)

lemma glide_slope_law_returns:
  "dt \<noteq> 0 \<Longrightarrow> \<exists>r. glide_slope_law self state d dt = Inr r \<and> phase (fst r) = phase self"
  by (simp add: glide_slope_law_def Let_def)

lemma flare_law_returns:
  "dt \<noteq> 0 \<Longrightarrow> flare_altitude self \<noteq> 0 \<Longrightarrow>
     \<exists>r. flare_law self state dt = Inr r \<and> phase (fst r) = phase self"
  by (simp add: flare_law_def Let_def)

lemma touchdown_law_returns:
  "\<exists>r. touchdown_law self state = Inr r \<and> phase (fst r) = phase self"
  by (simp add: touchdown_law_def Let_def)

lemma compute_control_returns:
  assumes "dt \<noteq> 0"
  shows "\<exists>self' e t. compute_control self state d dt =
           Inr (self', \<lparr> control_elevator = clip e (- 0.4) 0.4, control_throttle = clip t 0 1,
                          control_phase = phase self' \<rparr>)
           \<and> phase self' = phase (update_phase self (state_altitude state) d)"
proof -
  let ?s = "update_phase self (state_altitude state) d"
  have fl: "phase ?s = Flare \<Longrightarrow> flare_altitude ?s \<noteq> 0"
    by (auto simp add: update_phase_def split: if_splits)
  have "\<exists>r. (case phase ?s of
              Approach \<Rightarrow> approach_law ?s state dt
            | Glide_slope \<Rightarrow> glide_slope_law ?s state d dt
            | Flare \<Rightarrow> flare_law ?s state dt
            | Touchdown \<Rightarrow> touchdown_law ?s state) = Inr r \<and> phase (fst r) = phase ?s"
  proof (cases "phase ?s")
    case Approach
    with approach_law_returns [OF assms, of ?s state] show ?thesis by simp
  next
    case Glide_slope
    with glide_slope_law_returns [OF assms, of ?s state d] show ?thesis by simp
  next
    case Flare
    with flare_law_returns [OF assms fl, of state] show ?thesis by simp
  next
    case Touchdown
    with touchdown_law_returns [of ?s state] show ?thesis by simp
  qed
  then obtain s' e t where
    "(case phase ?s of
              Approach \<Rightarrow> approach_law ?s state dt
            | Glide_slope \<Rightarrow> glide_slope_law ?s state d dt
            | Flare \<Rightarrow> flare_law ?s state dt
            | Touchdown \<Rightarrow> touchdown_law ?s state) = Inr (s', e, t)" "phase s' = phase ?s"
    by (metis fst_conv prod_cases3)
  then show ?thesis
    by (auto simp add: compute_control_def Let_def)
qed

text \<open>
  C2: the phase after a control step depends only on the altitude and the distance to
  the threshold, never on the phase before: touchdown iff altitude \<open>\<le> 0.5\<close>, flare iff
  \<open>0.5 < altitude < flare_altitude\<close>, glide slope iff
  \<open>flare_altitude \<le> altitude < 200\<close> and distance \<open>< 4000\<close>, approach otherwise; with
  the flare altitude 20 set by the constructor, the four sample points of the claim give
  approach, glide slope, flare and touchdown.  The flare altitude is assumed above the
  touchdown band of 0.5 m.
\<close>

theorem phase_selection:
  assumes "0.5 < flare_altitude self" and "dt > 0"
  shows "\<exists>self' c. compute_control self state distance dt = Inr (self', c)
           \<and> control_phase c = phase self'
           \<and> (phase self' = Touchdown \<longleftrightarrow> state_altitude state \<le> 0.5)
           \<and> (phase self' = Flare \<longleftrightarrow>
                 0.5 < state_altitude state \<and> state_altitude state < flare_altitude self)
           \<and> (phase self' = Glide_slope \<longleftrightarrow>
                 flare_altitude self \<le> state_altitude state \<and> state_altitude state < 200
                 \<and> distance < 4000)
           \<and> (phase self' = Approach \<longleftrightarrow>
                 \<not> state_altitude state \<le> 0.5
                 \<and> \<not> (0.5 < state_altitude state \<and> state_altitude state < flare_altitude self)
                 \<and> \<not> (flare_altitude self \<le> state_altitude state \<and> state_altitude state < 200
                        \<and> distance < 4000))
           \<and> (flare_altitude self = 20 \<longrightarrow>
                 (state_altitude state = 300 \<and> distance = 5000 \<longrightarrow> phase self' = Approach)
                 \<and> (state_altitude state = 100 \<and> distance = 3500 \<longrightarrow> phase self' = Glide_slope)
                 \<and> (state_altitude state = 10 \<longrightarrow> phase self' = Flare)
                 \<and> (state_altitude state = 0.3 \<longrightarrow> phase self' = Touchdown))"
proof -
  from assms(2) have "dt \<noteq> 0" by simp
  from compute_control_returns [OF this, of self state distance]
  obtain self' e t where
    cc: "compute_control self state distance dt =
       Inr (self', \<lparr> control_elevator = clip e (- 0.4) 0.4, control_throttle = clip t 0 1,
                      control_phase = phase self' \<rparr>)"
    and ph: "phase self' = phase (update_phase self (state_altitude state) distance)"
    by blast
  have sel: "phase self' =
     (if state_altitude state \<le> 0.5 then Touchdown
      else if state_altitude state < flare_altitude self then Flare
      else if state_altitude state < 200 \<and> distance < 4000 then Glide_slope else Approach)"
    unfolding ph by (rule phase_update_phase_cases)
  from assms(1) have
    "(phase self' = Touchdown \<longleftrightarrow> state_altitude state \<le> 0.5)"
    "(phase self' = Flare \<longleftrightarrow>
        0.5 < state_altitude state \<and> state_altitude state < flare_altitude self)"
    "(phase self' = Glide_slope \<longleftrightarrow>
        flare_altitude self \<le> state_altitude state \<and> state_altitude state < 200
        \<and> distance < 4000)"
    "(phase self' = Approach \<longleftrightarrow>
        \<not> state_altitude state \<le> 0.5
        \<and> \<not> (0.5 < state_altitude state \<and> state_altitude state < flare_altitude self)
        \<and> \<not> (flare_altitude self \<le> state_altitude state \<and> state_altitude state < 200
               \<and> distance < 4000))"
    "flare_altitude self = 20 \<longrightarrow>
        (state_altitude state = 300 \<and> distance = 5000 \<longrightarrow> phase self' = Approach)
        \<and> (state_altitude state = 100 \<and> distance = 3500 \<longrightarrow> phase self' = Glide_slope)
        \<and> (state_altitude state = 10 \<longrightarrow> phase self' = Flare)
        \<and> (state_altitude state = 0.3 \<longrightarrow> phase self' = Touchdown)"
    unfolding sel by auto
  with cc show ?thesis by simp
qed

theorem phase_selection_witness:
  "(0.5::real) < flare_altitude (LandingController_init AircraftModel) \<and> (0::real) < 0.01 \<and>
   (\<exists>self' c. compute_control (LandingController_init AircraftModel)
        \<lparr> state_velocity = 30, state_altitude = 100, state_theta = 0, state_q = 0,
          state_alpha = 0.1 \<rparr> 3500 0.01 = Inr (self', c)
      \<and> control_phase c = Glide_slope)"
proof -
  have fa: "flare_altitude (LandingController_init AircraftModel) = 20"
    by (simp add: LandingController_init_def)
  have h1: "0.5 < flare_altitude (LandingController_init AircraftModel)"
    unfolding fa by simp
  have h2: "(0::real) < 0.01" by simp
  from phase_selection [OF h1 h2, of
          "\<lparr> state_velocity = 30, state_altitude = 100, state_theta = 0, state_q = 0,
             state_alpha = 0.1 \<rparr>" 3500]
  show ?thesis using fa by auto
qed

subsection \<open>Limits of the control command\<close>











subsection \<open>Landing performance\<close>

text \<open>
  C7: for a non-empty state history the report gives the touchdown speed
  \<open>sqrt (u\<^sup>2 + w\<^sup>2)\<close> and the vertical rate \<open>- w\<close> of the final state, and the success
  flag is exactly \<open>\<bar>rate\<bar> < 3\<close> and \<open>18 < speed < 35\<close>; a final state with
  \<open>h = 0\<close>, \<open>u = 25\<close>, \<open>w = 0\<close>, \<open>theta = 0\<close> gives speed 25, rate 0 and success.
\<close>

theorem landing_performance_touchdown:
  assumes "state_history \<noteq> []"
  shows "\<exists>p. evaluate_landing_performance time_history state_history control_history = Inr p
           \<and> (case last state_history of (u, w, q, theta, x, h) \<Rightarrow>
                 touchdown_speed_ms p = sqrt (u ^ 2 + w ^ 2)
                 \<and> touchdown_vertical_rate_ms p = - w
                 \<and> (landing_success p \<longleftrightarrow>
                       \<bar>touchdown_vertical_rate_ms p\<bar> < 3
                       \<and> 18 < touchdown_speed_ms p \<and> touchdown_speed_ms p < 35)
                 \<and> (h = 0 \<and> u = 25 \<and> w = 0 \<and> theta = 0 \<longrightarrow>
                       touchdown_speed_ms p = 25 \<and> touchdown_vertical_rate_ms p = 0
                       \<and> landing_success p))"
  using assms
  by (auto simp add: evaluate_landing_performance_def Let_def split: prod.splits)

theorem landing_performance_touchdown_witness:
  "[(35, 0, 0, 0, 0, 300), (25, 0, 0, 0, 3000, 0 :: real)] \<noteq> []
   \<and> (\<exists>p. evaluate_landing_performance [0, 100]
              [(35, 0, 0, 0, 0, 300), (25, 0, 0, 0, 3000, 0)]
              [\<lparr> control_elevator = 0, control_throttle = 0.5, control_phase = Approach \<rparr>] = Inr p
          \<and> touchdown_speed_ms p = 25 \<and> touchdown_vertical_rate_ms p = 0 \<and> landing_success p)"
  using landing_performance_touchdown [of "[(35, 0, 0, 0, 0, 300), (25, 0, 0, 0, 3000, 0)]"
          "[0, 100]"
          "[\<lparr> control_elevator = 0, control_throttle = 0.5, control_phase = Approach \<rparr>]"]
  by auto

text \<open>
  C8, as stated (a sample for every step recorded in the glide-slope phase), is false: a
  step recorded in the glide-slope phase at or beyond \<open>x = 3000\<close> contributes no sample.
  Such a step occurs with a threshold beyond 3000 m, or on an overshoot.
\<close>

theorem glide_slope_sample_skipped_counterexample:
  "filter (\<lambda>sc. control_phase (snd sc) = Glide_slope)
      (zip [(30, 0, 0, 0, 3500, 50 :: real), (30, 0, 0, 0, 3501.5, 49.9)]
           [\<lparr> control_elevator = 0, control_throttle = 0.5, control_phase = Glide_slope \<rparr>])
     = [((30, 0, 0, 0, 3500, 50),
         \<lparr> control_elevator = 0, control_throttle = 0.5, control_phase = Glide_slope \<rparr>)]
   \<and> glide_slope_errors 0 [(30, 0, 0, 0, 3500, 50), (30, 0, 0, 0, 3501.5, 49.9)]
        [\<lparr> control_elevator = 0, control_throttle = 0.5, control_phase = Glide_slope \<rparr>] = []"
  by simp

lemma glide_slope_errors_past_end:
  "length cs \<le> i \<Longrightarrow> glide_slope_errors i ss cs = []"
  by (induction ss arbitrary: i) auto

lemma glide_slope_errors_zip:
  "glide_slope_errors i ss cs =
     map (\<lambda>sc. case fst sc of (u, w, q, theta, x, h) \<Rightarrow> \<bar>h - (3000 - x) * tan (deg2rad 3)\<bar>)
       (filter (\<lambda>sc. control_phase (snd sc) = Glide_slope
                     \<and> (case fst sc of (u, w, q, theta, x, h) \<Rightarrow> x < 3000))
          (zip ss (drop i cs)))"
proof (induction ss arbitrary: i)
  case Nil
  show ?case by simp
next
  case (Cons s ss)
  show ?case
  proof (cases "i < length cs")
    case True
    then have d: "drop i cs = cs ! i # drop (Suc i) cs"
      by (simp add: Cons_nth_drop_Suc)
    from True have ne: "cs \<noteq> []" by auto
    show ?thesis
      using True ne Cons.IH [of "Suc i"]
      by (simp add: d Let_def split: prod.splits)
  next
    case False
    then have "glide_slope_errors i (s # ss) cs = []"
      by (intro glide_slope_errors_past_end) simp
    with False show ?thesis by simp
  qed
qed

lemma np_max_Max: "xs \<noteq> [] \<Longrightarrow> np_max xs = Max (set xs)"
proof (cases xs)
  case Nil
  then show "xs \<noteq> [] \<Longrightarrow> np_max xs = Max (set xs)" by simp
next
  case (Cons a list)
  show ?thesis unfolding Cons np_max_def by (simp only: list.sel Max.set_eq_fold)
qed

text \<open>
  C8, amended: the samples are \<open>\<bar>h - (3000 - x) * tan 3\<degree>\<bar>\<close>, in order, of the steps that
  have a control entry whose phase is glide slope and whose position is before the fixed
  3000 m threshold (\<open>3000 - x > 0\<close>); the report gives their mean and maximum, and 0 for
  both when there is no sample.  The evaluation receives the histories only, so the
  threshold given to the simulation cannot enter.
\<close>

theorem glide_slope_error_samples:
  assumes "state_history \<noteq> []"
  shows "let samples =
           map (\<lambda>sc. case fst sc of (u, w, q, theta, x, h) \<Rightarrow> \<bar>h - (3000 - x) * tan (deg2rad 3)\<bar>)
             (filter (\<lambda>sc. control_phase (snd sc) = Glide_slope
                           \<and> (case fst sc of (u, w, q, theta, x, h) \<Rightarrow> x < 3000))
                (zip state_history control_history))
         in glide_slope_errors 0 state_history control_history = samples
            \<and> (\<exists>p. evaluate_landing_performance time_history state_history control_history = Inr p
                  \<and> mean_glide_slope_error_m p =
                      (if samples = [] then 0 else sum_list samples / real (length samples))
                  \<and> max_glide_slope_error_m p =
                      (if samples = [] then 0 else Max (set samples)))"
proof -
  have z: "glide_slope_errors 0 state_history control_history =
     map (\<lambda>sc. case fst sc of (u, w, q, theta, x, h) \<Rightarrow> \<bar>h - (3000 - x) * tan (deg2rad 3)\<bar>)
       (filter (\<lambda>sc. control_phase (snd sc) = Glide_slope
                     \<and> (case fst sc of (u, w, q, theta, x, h) \<Rightarrow> x < 3000))
          (zip state_history control_history))"
    using glide_slope_errors_zip [of 0 state_history control_history] by simp
  have e: "\<exists>p. evaluate_landing_performance time_history state_history control_history = Inr p
       \<and> mean_glide_slope_error_m p =
           (if glide_slope_errors 0 state_history control_history = [] then 0
            else sum_list (glide_slope_errors 0 state_history control_history)
                 / real (length (glide_slope_errors 0 state_history control_history)))
       \<and> max_glide_slope_error_m p =
           (if glide_slope_errors 0 state_history control_history = [] then 0
            else Max (set (glide_slope_errors 0 state_history control_history)))"
    using assms
    by (simp add: evaluate_landing_performance_def Let_def np_mean_def np_max_Max
          split: prod.splits)
  show ?thesis
    unfolding Let_def using e unfolding z by simp
qed

theorem glide_slope_error_samples_witness:
  "[(30, 0, 0, 0, 2500, 30 :: real), (30, 0, 0, 0, 3500, 50), (30, 0, 0, 0, 3501, 49)] \<noteq> []
   \<and> glide_slope_errors 0
        [(30, 0, 0, 0, 2500, 30), (30, 0, 0, 0, 3500, 50), (30, 0, 0, 0, 3501, 49)]
        [\<lparr> control_elevator = 0, control_throttle = 0.5, control_phase = Glide_slope \<rparr>,
         \<lparr> control_elevator = 0, control_throttle = 0.5, control_phase = Glide_slope \<rparr>]
       = [\<bar>30 - 500 * tan (deg2rad 3)\<bar>]
   \<and> (\<exists>p. evaluate_landing_performance [0, 1, 2]
        [(30, 0, 0, 0, 2500, 30), (30, 0, 0, 0, 3500, 50), (30, 0, 0, 0, 3501, 49)]
        [\<lparr> control_elevator = 0, control_throttle = 0.5, control_phase = Glide_slope \<rparr>,
         \<lparr> control_elevator = 0, control_throttle = 0.5, control_phase = Glide_slope \<rparr>] = Inr p
       \<and> mean_glide_slope_error_m p = \<bar>30 - 500 * tan (deg2rad 3)\<bar>
       \<and> max_glide_slope_error_m p = \<bar>30 - 500 * tan (deg2rad 3)\<bar>)"
  using glide_slope_error_samples [of
        "[(30, 0, 0, 0, 2500, 30), (30, 0, 0, 0, 3500, 50), (30, 0, 0, 0, 3501, 49)]"
        "[\<lparr> control_elevator = 0, control_throttle = 0.5, control_phase = Glide_slope \<rparr>,
          \<lparr> control_elevator = 0, control_throttle = 0.5, control_phase = Glide_slope \<rparr>]"
        "[0, 1, 2]"]
  by (simp add: Let_def)

subsection \<open>Stability modes and handling qualities\<close>

lemma identify_mode_entry:
  assumes "kv \<in> set (identify_mode eigenvalues i)"
  shows "fst kv = Mode (i + 1)
         \<and> (mode_type (snd kv) = Complex_type \<longrightarrow>
               mode_natural_frequency (snd kv) = Some (frequency_key kv)
               \<and> mode_damping_ratio (snd kv) \<noteq> None)"
  using assms
  by (auto simp add: identify_mode_def Let_def frequency_key_def split: if_splits)

lemma identify_modes_entry:
  assumes "kv \<in> set (identify_modes eigenvalues)"
  shows "(\<exists>i. fst kv = Mode i)
         \<and> (mode_type (snd kv) = Complex_type \<longrightarrow>
               mode_natural_frequency (snd kv) = Some (frequency_key kv)
               \<and> mode_damping_ratio (snd kv) \<noteq> None)"
proof -
  from assms obtain i where "kv \<in> set (identify_mode eigenvalues i)"
    by (auto simp add: identify_modes_def)
  from identify_mode_entry [OF this] show ?thesis by blast
qed

lemma map_of_append_fresh:
  assumes "k \<notin> fst ` set xs"
  shows "map_of (xs @ ys) k = map_of ys k"
proof -
  from assms have "map_of xs k = None" by (simp add: map_of_eq_None_iff)
  then show ?thesis by (simp add: map_add_def)
qed

lemma sort_key_two_heads:
  fixes f :: "'a \<Rightarrow> real"
  assumes "2 \<le> length xs"
  shows "\<exists>rest. sort_key f xs = sort_key f xs ! 0 # sort_key f xs ! 1 # rest
           \<and> mset (sort_key f xs ! 0 # sort_key f xs ! 1 # rest) = mset xs
           \<and> f (sort_key f xs ! 0) \<le> f (sort_key f xs ! 1)
           \<and> (\<forall>y \<in> set rest. f (sort_key f xs ! 1) \<le> f y)"
proof -
  let ?s = "sort_key f xs"
  from assms have "2 \<le> length ?s" by simp
  then obtain a b rest where s: "?s = a # b # rest"
    by (cases ?s; cases "tl ?s") auto
  have srt: "sorted (map f ?s)" by (rule sorted_sort_key)
  have m: "mset ?s = mset xs" by simp
  from srt have "f a \<le> f b" "\<forall>y \<in> set rest. f b \<le> f y"
    unfolding s by auto
  with s m show ?thesis by (metis nth_Cons_0 nth_Cons_Suc One_nat_def)
qed

lemma mode_keys_fresh:
  assumes "\<forall>kv \<in> set found. \<exists>i. fst kv = Mode i"
  shows "Short_period \<notin> fst ` set found" and "Phugoid \<notin> fst ` set found"
  using assms by force+

lemma identify_specific_modes_aliases:
  assumes keys: "\<forall>kv \<in> set found. \<exists>i. fst kv = Mode i"
  shows "if 2 \<le> length (filter (\<lambda>kv. mode_type (snd kv) = Complex_type) found)
         then \<exists>sp ph rest.
                identify_specific_modes found = found @ [(Short_period, snd sp), (Phugoid, snd ph)]
                \<and> mset (sp # ph # rest) = mset (filter (\<lambda>kv. mode_type (snd kv) = Complex_type) found)
                \<and> frequency_key ph \<le> frequency_key sp
                \<and> (\<forall>kv \<in> set rest. frequency_key kv \<le> frequency_key ph)
                \<and> map_of (identify_specific_modes found) Short_period = Some (snd sp)
                \<and> map_of (identify_specific_modes found) Phugoid = Some (snd ph)
         else identify_specific_modes found = found
              \<and> map_of (identify_specific_modes found) Short_period = None
              \<and> map_of (identify_specific_modes found) Phugoid = None"
proof (cases "2 \<le> length (filter (\<lambda>kv. mode_type (snd kv) = Complex_type) found)")
  case True
  let ?cm = "filter (\<lambda>kv. mode_type (snd kv) = Complex_type) found"
  let ?s = "sort_key (\<lambda>kv. - frequency_key kv) ?cm"
  from sort_key_two_heads [OF True, of "\<lambda>kv. - frequency_key kv"]
  obtain rest where r: "?s = ?s ! 0 # ?s ! 1 # rest"
    and m: "mset (?s ! 0 # ?s ! 1 # rest) = mset ?cm"
    and o1: "- frequency_key (?s ! 0) \<le> - frequency_key (?s ! 1)"
    and o2: "\<forall>y \<in> set rest. - frequency_key (?s ! 1) \<le> - frequency_key y"
    by blast
  have res: "identify_specific_modes found
               = found @ [(Short_period, snd (?s ! 0)), (Phugoid, snd (?s ! 1))]"
    using True by (simp add: identify_specific_modes_def Let_def)
  have a1: "map_of (identify_specific_modes found) Short_period = Some (snd (?s ! 0))"
    unfolding res map_of_append_fresh [OF mode_keys_fresh(1) [OF keys]] by simp
  have a2: "map_of (identify_specific_modes found) Phugoid = Some (snd (?s ! 1))"
    unfolding res map_of_append_fresh [OF mode_keys_fresh(2) [OF keys]] by simp
  from o1 have o1': "frequency_key (?s ! 1) \<le> frequency_key (?s ! 0)" by simp
  from o2 have o2': "\<forall>kv \<in> set rest. frequency_key kv \<le> frequency_key (?s ! 1)" by simp
  from res m o1' o2' a1 a2 True show ?thesis by (simp only: if_True) blast
next
  case False
  then have res: "identify_specific_modes found = found"
    by (simp add: identify_specific_modes_def Let_def)
  from mode_keys_fresh [OF keys] have "map_of found Short_period = None" "map_of found Phugoid = None"
    by (simp_all add: map_of_eq_None_iff)
  with res False show ?thesis by simp
qed

lemma analyze_returns_identified:
  assumes "analyze_longitudinal_stability eig argsort ac trim_condition = Inr modes"
  shows "\<exists>eigenvalues. modes = identify_specific_modes (identify_modes eigenvalues)"
  using assms
  by (auto simp add: analyze_longitudinal_stability_def Let_def
        split: sum.splits prod.splits if_splits)

lemma alias_has_damping_ratio:
  assumes "map_of (identify_specific_modes (identify_modes eigenvalues)) k = Some m"
    and "k = Short_period \<or> k = Phugoid"
  shows "mode_damping_ratio m \<noteq> None"
proof -
  let ?found = "identify_modes eigenvalues"
  let ?cm = "filter (\<lambda>kv. mode_type (snd kv) = Complex_type) ?found"
  have keys: "\<forall>kv \<in> set ?found. \<exists>i. fst kv = Mode i"
    using identify_modes_entry by blast
  show ?thesis
  proof (cases "2 \<le> length ?cm")
    case True
    with identify_specific_modes_aliases [OF keys]
    obtain sp ph rest where
      m: "mset (sp # ph # rest) = mset ?cm"
      and a1: "map_of (identify_specific_modes ?found) Short_period = Some (snd sp)"
      and a2: "map_of (identify_specific_modes ?found) Phugoid = Some (snd ph)"
      by auto
    from m have "set (sp # ph # rest) = set ?cm" by (rule mset_eq_setD)
    then have "sp \<in> set ?cm" "ph \<in> set ?cm" by auto
    then have "mode_damping_ratio (snd sp) \<noteq> None" "mode_damping_ratio (snd ph) \<noteq> None"
      using identify_modes_entry [of sp eigenvalues] identify_modes_entry [of ph eigenvalues]
      by auto
    with assms a1 a2 show ?thesis by auto
  next
    case False
    with identify_specific_modes_aliases [OF keys]
    have "map_of (identify_specific_modes ?found) Short_period = None"
      "map_of (identify_specific_modes ?found) Phugoid = None"
      by auto
    with assms show ?thesis by auto
  qed
qed

lemma assess_short_period_levels:
  assumes "mode_damping_ratio sp = Some z"
  shows "\<exists>a. assess_short_period sp = Inr a \<and> sp_damping_ratio a = z
           \<and> sp_natural_frequency a = mode_natural_frequency sp
           \<and> (sp_level a = 1 \<longleftrightarrow> 0.35 \<le> z \<and> z \<le> 1.30)
           \<and> (sp_level a = 2 \<longleftrightarrow> \<not> (0.35 \<le> z \<and> z \<le> 1.30) \<and> 0.25 \<le> z \<and> z \<le> 2.00)
           \<and> (sp_level a = 3 \<longleftrightarrow>
                 \<not> (0.35 \<le> z \<and> z \<le> 1.30) \<and> \<not> (0.25 \<le> z \<and> z \<le> 2.00) \<and> z \<ge> 0.15)
           \<and> (sp_level a = 4 \<longleftrightarrow>
                 \<not> (0.35 \<le> z \<and> z \<le> 1.30) \<and> \<not> (0.25 \<le> z \<and> z \<le> 2.00) \<and> \<not> z \<ge> 0.15)
           \<and> (sp_acceptable a \<longleftrightarrow> sp_level a \<le> 3)"
  using assms by (simp add: assess_short_period_def Let_def)

lemma assess_phugoid_levels:
  assumes "mode_damping_ratio ph = Some z"
  shows "\<exists>a. assess_phugoid ph = Inr a \<and> ph_damping_ratio a = z
           \<and> ph_period a = mode_period ph
           \<and> (ph_level a = 1 \<longleftrightarrow> z \<ge> 0.04)
           \<and> (ph_level a = 2 \<longleftrightarrow> \<not> z \<ge> 0.04 \<and> z > 0)
           \<and> (ph_level a = 3 \<longleftrightarrow> \<not> z \<ge> 0.04 \<and> \<not> z > 0
                 \<and> (Re (mode_eigenvalue ph) = 0 \<or> ln 2 / \<bar>Re (mode_eigenvalue ph)\<bar> > 55))
           \<and> (ph_level a = 4 \<longleftrightarrow> \<not> z \<ge> 0.04 \<and> \<not> z > 0
                 \<and> \<not> (Re (mode_eigenvalue ph) = 0 \<or> ln 2 / \<bar>Re (mode_eigenvalue ph)\<bar> > 55))
           \<and> (ph_acceptable a \<longleftrightarrow> ph_level a \<le> 3)"
  using assms by (simp add: assess_phugoid_def time_to_double_def Let_def)

lemma sqrt_25: "sqrt 25 = 5"
  using real_sqrt_abs [of 5] by simp

lemma sqrt_16: "sqrt 16 = 4"
  using real_sqrt_abs [of 4] by simp

lemma upt_4: "[0..<4] = [0, 1, 2, 3]"
  by (simp add: upt_rec)

lemma example_matrices:
  "\<exists>AB. get_longitudinal_matrices AircraftModel
     \<lparr> trim_velocity = 30, trim_alpha = 0, trim_theta = 0, trim_q = 0, trim_altitude = 0,
          trim_CL = 0, trim_CD = 0, trim_elevator = 0, trim_thrust = 0 \<rparr> = Inr AB"
  by (simp add: get_longitudinal_matrices_def AircraftModel_def Let_def)

lemma example_two_pairs:
  "analyze_longitudinal_stability
     (\<lambda>A. [Complex 0 4, Complex 0 (- 4), Complex (- 3) 4, Complex (- 3) (- 4)])
     (\<lambda>v. [3, 2, 1, 0]) AircraftModel
     \<lparr> trim_velocity = 30, trim_alpha = 0, trim_theta = 0, trim_q = 0, trim_altitude = 0,
          trim_CL = 0, trim_CD = 0, trim_elevator = 0, trim_thrust = 0 \<rparr>
   = Inr [(Mode 1, \<lparr> mode_eigenvalue = Complex 0 4, mode_type = Complex_type,
         mode_stability = Unstable, mode_time_constant = None,
         mode_damping_ratio = Some 0, mode_natural_frequency = Some 4,
         mode_damped_frequency = Some 4, mode_period = Some (Finite (2 * pi / 4)) \<rparr>),
          (Mode 3, \<lparr> mode_eigenvalue = Complex (- 3) 4, mode_type = Complex_type,
         mode_stability = Stable, mode_time_constant = None,
         mode_damping_ratio = Some (3 / 5), mode_natural_frequency = Some 5,
         mode_damped_frequency = Some 4, mode_period = Some (Finite (2 * pi / 4)) \<rparr>),
          (Short_period, \<lparr> mode_eigenvalue = Complex (- 3) 4, mode_type = Complex_type,
         mode_stability = Stable, mode_time_constant = None,
         mode_damping_ratio = Some (3 / 5), mode_natural_frequency = Some 5,
         mode_damped_frequency = Some 4, mode_period = Some (Finite (2 * pi / 4)) \<rparr>),
          (Phugoid, \<lparr> mode_eigenvalue = Complex 0 4, mode_type = Complex_type,
         mode_stability = Unstable, mode_time_constant = None,
         mode_damping_ratio = Some 0, mode_natural_frequency = Some 4,
         mode_damped_frequency = Some 4, mode_period = Some (Finite (2 * pi / 4)) \<rparr>)]"
proof -
  from example_matrices obtain A B where
    "get_longitudinal_matrices AircraftModel
     \<lparr> trim_velocity = 30, trim_alpha = 0, trim_theta = 0, trim_q = 0, trim_altitude = 0,
          trim_CL = 0, trim_CD = 0, trim_elevator = 0, trim_thrust = 0 \<rparr> = Inr (A, B)"
    by force
  then show ?thesis
    by (simp add: analyze_longitudinal_stability_def identify_modes_def upt_4 identify_mode_def
          identify_specific_modes_def frequency_key_def Let_def isclose_def cmod_def sqrt_25 sqrt_16)
qed

lemma example_one_pair:
  "analyze_longitudinal_stability
     (\<lambda>A. [Complex (- 1) 0, Complex (- 3) 0, Complex (- 3) 4, Complex (- 3) (- 4)])
     (\<lambda>v. [3, 2, 1, 0]) AircraftModel
     \<lparr> trim_velocity = 30, trim_alpha = 0, trim_theta = 0, trim_q = 0, trim_altitude = 0,
          trim_CL = 0, trim_CD = 0, trim_elevator = 0, trim_thrust = 0 \<rparr>
   = Inr [(Mode 1, \<lparr> mode_eigenvalue = Complex (- 1) 0, mode_type = Real_type,
         mode_stability = Stable, mode_time_constant = Some (Finite 1),
         mode_damping_ratio = None, mode_natural_frequency = None,
         mode_damped_frequency = None, mode_period = None \<rparr>),
          (Mode 2, \<lparr> mode_eigenvalue = Complex (- 3) 0, mode_type = Real_type,
         mode_stability = Stable, mode_time_constant = Some (Finite (1 / 3)),
         mode_damping_ratio = None, mode_natural_frequency = None,
         mode_damped_frequency = None, mode_period = None \<rparr>),
          (Mode 3, \<lparr> mode_eigenvalue = Complex (- 3) 4, mode_type = Complex_type,
         mode_stability = Stable, mode_time_constant = None,
         mode_damping_ratio = Some (3 / 5), mode_natural_frequency = Some 5,
         mode_damped_frequency = Some 4, mode_period = Some (Finite (2 * pi / 4)) \<rparr>)]"
proof -
  from example_matrices obtain A B where
    "get_longitudinal_matrices AircraftModel
     \<lparr> trim_velocity = 30, trim_alpha = 0, trim_theta = 0, trim_q = 0, trim_altitude = 0,
          trim_CL = 0, trim_CD = 0, trim_elevator = 0, trim_thrust = 0 \<rparr> = Inr (A, B)"
    by force
  then show ?thesis
    by (simp add: analyze_longitudinal_stability_def identify_modes_def upt_4 identify_mode_def
          identify_specific_modes_def frequency_key_def Let_def isclose_def cmod_def sqrt_25 sqrt_16)
qed

text \<open>
  C5: let \<open>found\<close> be the entries \<open>mode_i\<close> of a returned mode dictionary.  When at least
  two of them are complex, the dictionary is \<open>found\<close> followed by the aliases
  \<open>short_period\<close> and \<open>phugoid\<close>, which are two different complex entries \<open>sp\<close> and
  \<open>ph\<close> of \<open>found\<close> with the natural frequency of \<open>ph\<close> at most that of \<open>sp\<close> and every
  other complex entry at most that of \<open>ph\<close>.  When fewer than two are complex, the
  dictionary is \<open>found\<close> and has neither alias.
\<close>

theorem mode_aliases:
  assumes "analyze_longitudinal_stability eig argsort ac trim_condition = Inr modes"
  shows "\<exists>found.
           (\<forall>kv \<in> set found. (\<exists>i. fst kv = Mode i)
               \<and> (mode_type (snd kv) = Complex_type \<longrightarrow>
                     mode_natural_frequency (snd kv) = Some (frequency_key kv)))
           \<and> (if 2 \<le> length (filter (\<lambda>kv. mode_type (snd kv) = Complex_type) found)
              then \<exists>sp ph rest.
                     modes = found @ [(Short_period, snd sp), (Phugoid, snd ph)]
                     \<and> mset (sp # ph # rest)
                         = mset (filter (\<lambda>kv. mode_type (snd kv) = Complex_type) found)
                     \<and> frequency_key ph \<le> frequency_key sp
                     \<and> (\<forall>kv \<in> set rest. frequency_key kv \<le> frequency_key ph)
                     \<and> map_of modes Short_period = Some (snd sp)
                     \<and> map_of modes Phugoid = Some (snd ph)
              else modes = found
                   \<and> map_of modes Short_period = None \<and> map_of modes Phugoid = None)"
proof -
  from analyze_returns_identified [OF assms] obtain eigenvalues where
    modes: "modes = identify_specific_modes (identify_modes eigenvalues)" ..
  let ?found = "identify_modes eigenvalues"
  have ent: "\<forall>kv \<in> set ?found. (\<exists>i. fst kv = Mode i)
               \<and> (mode_type (snd kv) = Complex_type \<longrightarrow>
                     mode_natural_frequency (snd kv) = Some (frequency_key kv))"
    using identify_modes_entry by blast
  then have keys: "\<forall>kv \<in> set ?found. \<exists>i. fst kv = Mode i" by blast
  from identify_specific_modes_aliases [OF keys] ent show ?thesis
    unfolding modes by blast
qed

theorem mode_aliases_witness:
  "(\<exists>modes sp ph.
      analyze_longitudinal_stability (\<lambda>A. [Complex 0 4, Complex 0 (- 4), Complex (- 3) 4, Complex (- 3) (- 4)])
        (\<lambda>v. [3, 2, 1, 0]) AircraftModel
        \<lparr> trim_velocity = 30, trim_alpha = 0, trim_theta = 0, trim_q = 0, trim_altitude = 0,
          trim_CL = 0, trim_CD = 0, trim_elevator = 0, trim_thrust = 0 \<rparr> = Inr modes
      \<and> map_of modes Short_period = Some (snd sp) \<and> map_of modes Phugoid = Some (snd ph)
      \<and> frequency_key ph \<le> frequency_key sp
      \<and> mode_natural_frequency (snd sp) = Some 5 \<and> mode_natural_frequency (snd ph) = Some 4)
   \<and> (\<exists>modes.
      analyze_longitudinal_stability (\<lambda>A. [Complex (- 1) 0, Complex (- 3) 0, Complex (- 3) 4, Complex (- 3) (- 4)])
        (\<lambda>v. [3, 2, 1, 0]) AircraftModel
        \<lparr> trim_velocity = 30, trim_alpha = 0, trim_theta = 0, trim_q = 0, trim_altitude = 0,
          trim_CL = 0, trim_CD = 0, trim_elevator = 0, trim_thrust = 0 \<rparr> = Inr modes
      \<and> map_of modes Short_period = None \<and> map_of modes Phugoid = None)"
proof (rule conjI)
  let ?m1 = "\<lparr> mode_eigenvalue = Complex 0 4, mode_type = Complex_type,
         mode_stability = Unstable, mode_time_constant = None,
         mode_damping_ratio = Some 0, mode_natural_frequency = Some 4,
         mode_damped_frequency = Some 4, mode_period = Some (Finite (2 * pi / 4)) \<rparr>"
  let ?m3 = "\<lparr> mode_eigenvalue = Complex (- 3) 4, mode_type = Complex_type,
         mode_stability = Stable, mode_time_constant = None,
         mode_damping_ratio = Some (3 / 5), mode_natural_frequency = Some 5,
         mode_damped_frequency = Some 4, mode_period = Some (Finite (2 * pi / 4)) \<rparr>"
  let ?modes = "[(Mode 1, ?m1), (Mode 3, ?m3), (Short_period, ?m3), (Phugoid, ?m1)]"
  note e = example_two_pairs
  have m: "map_of ?modes Short_period = Some ?m3" "map_of ?modes Phugoid = Some ?m1"
    by simp_all
  from mode_aliases [OF e] obtain sp ph where
    a: "map_of ?modes Short_period = Some (snd sp)" "map_of ?modes Phugoid = Some (snd ph)"
    and ord: "frequency_key ph \<le> frequency_key sp"
    by (auto split: if_splits)
  from a have "snd sp = ?m3" "snd ph = ?m1"
    unfolding m by simp_all
  then have nf: "mode_natural_frequency (snd sp) = Some 5"
    "mode_natural_frequency (snd ph) = Some 4"
    by simp_all
  from e a ord nf show "\<exists>modes sp ph.
      analyze_longitudinal_stability (\<lambda>A. [Complex 0 4, Complex 0 (- 4), Complex (- 3) 4, Complex (- 3) (- 4)])
        (\<lambda>v. [3, 2, 1, 0]) AircraftModel
        \<lparr> trim_velocity = 30, trim_alpha = 0, trim_theta = 0, trim_q = 0, trim_altitude = 0,
          trim_CL = 0, trim_CD = 0, trim_elevator = 0, trim_thrust = 0 \<rparr> = Inr modes
      \<and> map_of modes Short_period = Some (snd sp) \<and> map_of modes Phugoid = Some (snd ph)
      \<and> frequency_key ph \<le> frequency_key sp
      \<and> mode_natural_frequency (snd sp) = Some 5 \<and> mode_natural_frequency (snd ph) = Some 4"
    by blast
next
  note e = example_one_pair
  from mode_aliases [OF e] show "\<exists>modes.
      analyze_longitudinal_stability (\<lambda>A. [Complex (- 1) 0, Complex (- 3) 0, Complex (- 3) 4, Complex (- 3) (- 4)])
        (\<lambda>v. [3, 2, 1, 0]) AircraftModel
        \<lparr> trim_velocity = 30, trim_alpha = 0, trim_theta = 0, trim_q = 0, trim_altitude = 0,
          trim_CL = 0, trim_CD = 0, trim_elevator = 0, trim_thrust = 0 \<rparr> = Inr modes
      \<and> map_of modes Short_period = None \<and> map_of modes Phugoid = None"
    unfolding e by (auto split: if_splits)
qed

text \<open>
  C6: whenever the mode analysis returns, the handling-quality evaluation returns too.
  An alias that is absent gives no entry.  A short-period alias with damping ratio \<open>z\<close>
  gives level 1 iff \<open>0.35 \<le> z \<le> 1.30\<close>, else level 2 iff \<open>0.25 \<le> z \<le> 2.00\<close>, else
  level 3 iff \<open>z \<ge> 0.15\<close>, else level 4.  A phugoid alias gives level 1 iff
  \<open>z \<ge> 0.04\<close>, else level 2 iff \<open>z > 0\<close>, else level 3 iff the time to double
  \<open>ln 2 / \<bar>Re \<lambda>\<bar>\<close> exceeds 55 (it is infinite when \<open>Re \<lambda> = 0\<close>), else level 4.
  An entry is acceptable iff its level is at most 3.
\<close>

theorem handling_quality_levels:
  assumes "analyze_longitudinal_stability eig argsort ac trim_condition = Inr modes"
  shows "\<exists>hq. evaluate_handling_qualities eig argsort ac trim_condition = Inr hq
           \<and> (case map_of modes Short_period of
                 None \<Rightarrow> hq_short_period hq = None
               | Some sp \<Rightarrow>
                   \<exists>a z. hq_short_period hq = Some a \<and> mode_damping_ratio sp = Some z
                     \<and> sp_damping_ratio a = z
                     \<and> (sp_level a = 1 \<longleftrightarrow> 0.35 \<le> z \<and> z \<le> 1.30)
                     \<and> (sp_level a = 2 \<longleftrightarrow>
                           \<not> (0.35 \<le> z \<and> z \<le> 1.30) \<and> 0.25 \<le> z \<and> z \<le> 2.00)
                     \<and> (sp_level a = 3 \<longleftrightarrow>
                           \<not> (0.35 \<le> z \<and> z \<le> 1.30) \<and> \<not> (0.25 \<le> z \<and> z \<le> 2.00)
                           \<and> z \<ge> 0.15)
                     \<and> (sp_level a = 4 \<longleftrightarrow>
                           \<not> (0.35 \<le> z \<and> z \<le> 1.30) \<and> \<not> (0.25 \<le> z \<and> z \<le> 2.00)
                           \<and> \<not> z \<ge> 0.15)
                     \<and> (sp_acceptable a \<longleftrightarrow> sp_level a \<le> 3))
           \<and> (case map_of modes Phugoid of
                 None \<Rightarrow> hq_phugoid hq = None
               | Some ph \<Rightarrow>
                   \<exists>a z. hq_phugoid hq = Some a \<and> mode_damping_ratio ph = Some z
                     \<and> ph_damping_ratio a = z
                     \<and> (ph_level a = 1 \<longleftrightarrow> z \<ge> 0.04)
                     \<and> (ph_level a = 2 \<longleftrightarrow> \<not> z \<ge> 0.04 \<and> z > 0)
                     \<and> (ph_level a = 3 \<longleftrightarrow> \<not> z \<ge> 0.04 \<and> \<not> z > 0
                           \<and> (Re (mode_eigenvalue ph) = 0
                                \<or> ln 2 / \<bar>Re (mode_eigenvalue ph)\<bar> > 55))
                     \<and> (ph_level a = 4 \<longleftrightarrow> \<not> z \<ge> 0.04 \<and> \<not> z > 0
                           \<and> \<not> (Re (mode_eigenvalue ph) = 0
                                  \<or> ln 2 / \<bar>Re (mode_eigenvalue ph)\<bar> > 55))
                     \<and> (ph_acceptable a \<longleftrightarrow> ph_level a \<le> 3))"
proof -
  from analyze_returns_identified [OF assms] obtain eigenvalues where
    modes: "modes = identify_specific_modes (identify_modes eigenvalues)" ..
  have sp_part: "\<exists>e. (case map_of modes Short_period of
                         None \<Rightarrow> Inr None
                       | Some sp \<Rightarrow> map_sum id Some (assess_short_period sp)) = Inr e
           \<and> (case map_of modes Short_period of
                 None \<Rightarrow> e = None
               | Some sp \<Rightarrow>
                   \<exists>a z. e = Some a \<and> mode_damping_ratio sp = Some z
                     \<and> sp_damping_ratio a = z
                     \<and> (sp_level a = 1 \<longleftrightarrow> 0.35 \<le> z \<and> z \<le> 1.30)
                     \<and> (sp_level a = 2 \<longleftrightarrow>
                           \<not> (0.35 \<le> z \<and> z \<le> 1.30) \<and> 0.25 \<le> z \<and> z \<le> 2.00)
                     \<and> (sp_level a = 3 \<longleftrightarrow>
                           \<not> (0.35 \<le> z \<and> z \<le> 1.30) \<and> \<not> (0.25 \<le> z \<and> z \<le> 2.00)
                           \<and> z \<ge> 0.15)
                     \<and> (sp_level a = 4 \<longleftrightarrow>
                           \<not> (0.35 \<le> z \<and> z \<le> 1.30) \<and> \<not> (0.25 \<le> z \<and> z \<le> 2.00)
                           \<and> \<not> z \<ge> 0.15)
                     \<and> (sp_acceptable a \<longleftrightarrow> sp_level a \<le> 3))"
  proof (cases "map_of modes Short_period")
    case None
    then show ?thesis by simp
  next
    case (Some sp)
    with alias_has_damping_ratio [of eigenvalues Short_period sp] modes
    obtain z where z: "mode_damping_ratio sp = Some z" by auto
    from assess_short_period_levels [OF z] obtain a where
      "assess_short_period sp = Inr a" "sp_damping_ratio a = z"
      "(sp_level a = 1 \<longleftrightarrow> 0.35 \<le> z \<and> z \<le> 1.30)"
      "(sp_level a = 2 \<longleftrightarrow> \<not> (0.35 \<le> z \<and> z \<le> 1.30) \<and> 0.25 \<le> z \<and> z \<le> 2.00)"
      "(sp_level a = 3 \<longleftrightarrow>
          \<not> (0.35 \<le> z \<and> z \<le> 1.30) \<and> \<not> (0.25 \<le> z \<and> z \<le> 2.00) \<and> z \<ge> 0.15)"
      "(sp_level a = 4 \<longleftrightarrow>
          \<not> (0.35 \<le> z \<and> z \<le> 1.30) \<and> \<not> (0.25 \<le> z \<and> z \<le> 2.00) \<and> \<not> z \<ge> 0.15)"
      "(sp_acceptable a \<longleftrightarrow> sp_level a \<le> 3)"
      by blast
    with Some z show ?thesis by simp
  qed
  have ph_part: "\<exists>e. (case map_of modes Phugoid of
                         None \<Rightarrow> Inr None
                       | Some ph \<Rightarrow> map_sum id Some (assess_phugoid ph)) = Inr e
           \<and> (case map_of modes Phugoid of
                 None \<Rightarrow> e = None
               | Some ph \<Rightarrow>
                   \<exists>a z. e = Some a \<and> mode_damping_ratio ph = Some z
                     \<and> ph_damping_ratio a = z
                     \<and> (ph_level a = 1 \<longleftrightarrow> z \<ge> 0.04)
                     \<and> (ph_level a = 2 \<longleftrightarrow> \<not> z \<ge> 0.04 \<and> z > 0)
                     \<and> (ph_level a = 3 \<longleftrightarrow> \<not> z \<ge> 0.04 \<and> \<not> z > 0
                           \<and> (Re (mode_eigenvalue ph) = 0
                                \<or> ln 2 / \<bar>Re (mode_eigenvalue ph)\<bar> > 55))
                     \<and> (ph_level a = 4 \<longleftrightarrow> \<not> z \<ge> 0.04 \<and> \<not> z > 0
                           \<and> \<not> (Re (mode_eigenvalue ph) = 0
                                  \<or> ln 2 / \<bar>Re (mode_eigenvalue ph)\<bar> > 55))
                     \<and> (ph_acceptable a \<longleftrightarrow> ph_level a \<le> 3))"
  proof (cases "map_of modes Phugoid")
    case None
    then show ?thesis by simp
  next
    case (Some ph)
    with alias_has_damping_ratio [of eigenvalues Phugoid ph] modes
    obtain z where z: "mode_damping_ratio ph = Some z" by auto
    from assess_phugoid_levels [OF z] obtain a where
      "assess_phugoid ph = Inr a" "ph_damping_ratio a = z"
      "(ph_level a = 1 \<longleftrightarrow> z \<ge> 0.04)"
      "(ph_level a = 2 \<longleftrightarrow> \<not> z \<ge> 0.04 \<and> z > 0)"
      "(ph_level a = 3 \<longleftrightarrow> \<not> z \<ge> 0.04 \<and> \<not> z > 0
          \<and> (Re (mode_eigenvalue ph) = 0 \<or> ln 2 / \<bar>Re (mode_eigenvalue ph)\<bar> > 55))"
      "(ph_level a = 4 \<longleftrightarrow> \<not> z \<ge> 0.04 \<and> \<not> z > 0
          \<and> \<not> (Re (mode_eigenvalue ph) = 0 \<or> ln 2 / \<bar>Re (mode_eigenvalue ph)\<bar> > 55))"
      "(ph_acceptable a \<longleftrightarrow> ph_level a \<le> 3)"
      by blast
    with Some z show ?thesis by simp
  qed
  from sp_part obtain e1 where e1: "(case map_of modes Short_period of
                         None \<Rightarrow> Inr None
                       | Some sp \<Rightarrow> map_sum id Some (assess_short_period sp)) = Inr e1"
    and p1: "(case map_of modes Short_period of
                 None \<Rightarrow> e1 = None
               | Some sp \<Rightarrow>
                   \<exists>a z. e1 = Some a \<and> mode_damping_ratio sp = Some z
                     \<and> sp_damping_ratio a = z
                     \<and> (sp_level a = 1 \<longleftrightarrow> 0.35 \<le> z \<and> z \<le> 1.30)
                     \<and> (sp_level a = 2 \<longleftrightarrow>
                           \<not> (0.35 \<le> z \<and> z \<le> 1.30) \<and> 0.25 \<le> z \<and> z \<le> 2.00)
                     \<and> (sp_level a = 3 \<longleftrightarrow>
                           \<not> (0.35 \<le> z \<and> z \<le> 1.30) \<and> \<not> (0.25 \<le> z \<and> z \<le> 2.00)
                           \<and> z \<ge> 0.15)
                     \<and> (sp_level a = 4 \<longleftrightarrow>
                           \<not> (0.35 \<le> z \<and> z \<le> 1.30) \<and> \<not> (0.25 \<le> z \<and> z \<le> 2.00)
                           \<and> \<not> z \<ge> 0.15)
                     \<and> (sp_acceptable a \<longleftrightarrow> sp_level a \<le> 3))"
    by blast
  from ph_part obtain e2 where e2: "(case map_of modes Phugoid of
                         None \<Rightarrow> Inr None
                       | Some ph \<Rightarrow> map_sum id Some (assess_phugoid ph)) = Inr e2"
    and p2: "(case map_of modes Phugoid of
                 None \<Rightarrow> e2 = None
               | Some ph \<Rightarrow>
                   \<exists>a z. e2 = Some a \<and> mode_damping_ratio ph = Some z
                     \<and> ph_damping_ratio a = z
                     \<and> (ph_level a = 1 \<longleftrightarrow> z \<ge> 0.04)
                     \<and> (ph_level a = 2 \<longleftrightarrow> \<not> z \<ge> 0.04 \<and> z > 0)
                     \<and> (ph_level a = 3 \<longleftrightarrow> \<not> z \<ge> 0.04 \<and> \<not> z > 0
                           \<and> (Re (mode_eigenvalue ph) = 0
                                \<or> ln 2 / \<bar>Re (mode_eigenvalue ph)\<bar> > 55))
                     \<and> (ph_level a = 4 \<longleftrightarrow> \<not> z \<ge> 0.04 \<and> \<not> z > 0
                           \<and> \<not> (Re (mode_eigenvalue ph) = 0
                                  \<or> ln 2 / \<bar>Re (mode_eigenvalue ph)\<bar> > 55))
                     \<and> (ph_acceptable a \<longleftrightarrow> ph_level a \<le> 3))"
    by blast
  have ev: "evaluate_handling_qualities eig argsort ac trim_condition
              = Inr \<lparr> hq_short_period = e1, hq_phugoid = e2 \<rparr>"
    unfolding evaluate_handling_qualities_def assms using e1 e2 by simp
  have s1: "hq_short_period \<lparr> hq_short_period = e1, hq_phugoid = e2 \<rparr> = e1"
    and s2: "hq_phugoid \<lparr> hq_short_period = e1, hq_phugoid = e2 \<rparr> = e2"
    by simp_all
  from p1 p2 have "(case map_of modes Short_period of
                 None \<Rightarrow> hq_short_period \<lparr> hq_short_period = e1, hq_phugoid = e2 \<rparr> = None
               | Some sp \<Rightarrow>
                   \<exists>a z. hq_short_period \<lparr> hq_short_period = e1, hq_phugoid = e2 \<rparr> = Some a
                     \<and> mode_damping_ratio sp = Some z
                     \<and> sp_damping_ratio a = z
                     \<and> (sp_level a = 1 \<longleftrightarrow> 0.35 \<le> z \<and> z \<le> 1.30)
                     \<and> (sp_level a = 2 \<longleftrightarrow>
                           \<not> (0.35 \<le> z \<and> z \<le> 1.30) \<and> 0.25 \<le> z \<and> z \<le> 2.00)
                     \<and> (sp_level a = 3 \<longleftrightarrow>
                           \<not> (0.35 \<le> z \<and> z \<le> 1.30) \<and> \<not> (0.25 \<le> z \<and> z \<le> 2.00)
                           \<and> z \<ge> 0.15)
                     \<and> (sp_level a = 4 \<longleftrightarrow>
                           \<not> (0.35 \<le> z \<and> z \<le> 1.30) \<and> \<not> (0.25 \<le> z \<and> z \<le> 2.00)
                           \<and> \<not> z \<ge> 0.15)
                     \<and> (sp_acceptable a \<longleftrightarrow> sp_level a \<le> 3))
           \<and> (case map_of modes Phugoid of
                 None \<Rightarrow> hq_phugoid \<lparr> hq_short_period = e1, hq_phugoid = e2 \<rparr> = None
               | Some ph \<Rightarrow>
                   \<exists>a z. hq_phugoid \<lparr> hq_short_period = e1, hq_phugoid = e2 \<rparr> = Some a
                     \<and> mode_damping_ratio ph = Some z
                     \<and> ph_damping_ratio a = z
                     \<and> (ph_level a = 1 \<longleftrightarrow> z \<ge> 0.04)
                     \<and> (ph_level a = 2 \<longleftrightarrow> \<not> z \<ge> 0.04 \<and> z > 0)
                     \<and> (ph_level a = 3 \<longleftrightarrow> \<not> z \<ge> 0.04 \<and> \<not> z > 0
                           \<and> (Re (mode_eigenvalue ph) = 0
                                \<or> ln 2 / \<bar>Re (mode_eigenvalue ph)\<bar> > 55))
                     \<and> (ph_level a = 4 \<longleftrightarrow> \<not> z \<ge> 0.04 \<and> \<not> z > 0
                           \<and> \<not> (Re (mode_eigenvalue ph) = 0
                                  \<or> ln 2 / \<bar>Re (mode_eigenvalue ph)\<bar> > 55))
                     \<and> (ph_acceptable a \<longleftrightarrow> ph_level a \<le> 3))"
    unfolding s1 s2 by (rule conjI)
  with ev show ?thesis by blast
qed

theorem handling_quality_levels_witness:
  "(\<exists>hq a b.
      evaluate_handling_qualities (\<lambda>A. [Complex 0 4, Complex 0 (- 4), Complex (- 3) 4, Complex (- 3) (- 4)])
        (\<lambda>v. [3, 2, 1, 0]) AircraftModel
        \<lparr> trim_velocity = 30, trim_alpha = 0, trim_theta = 0, trim_q = 0, trim_altitude = 0,
          trim_CL = 0, trim_CD = 0, trim_elevator = 0, trim_thrust = 0 \<rparr> = Inr hq
      \<and> hq_short_period hq = Some a \<and> sp_damping_ratio a = 3 / 5 \<and> sp_level a = 1
      \<and> sp_acceptable a
      \<and> hq_phugoid hq = Some b \<and> ph_damping_ratio b = 0 \<and> ph_level b = 3 \<and> ph_acceptable b)
   \<and> (\<exists>hq.
      evaluate_handling_qualities (\<lambda>A. [Complex (- 1) 0, Complex (- 3) 0, Complex (- 3) 4, Complex (- 3) (- 4)])
        (\<lambda>v. [3, 2, 1, 0]) AircraftModel
        \<lparr> trim_velocity = 30, trim_alpha = 0, trim_theta = 0, trim_q = 0, trim_altitude = 0,
          trim_CL = 0, trim_CD = 0, trim_elevator = 0, trim_thrust = 0 \<rparr> = Inr hq
      \<and> hq_short_period hq = None \<and> hq_phugoid hq = None)"
proof (rule conjI)
  from handling_quality_levels [OF example_two_pairs]
  show "\<exists>hq a b.
      evaluate_handling_qualities (\<lambda>A. [Complex 0 4, Complex 0 (- 4), Complex (- 3) 4, Complex (- 3) (- 4)])
        (\<lambda>v. [3, 2, 1, 0]) AircraftModel
        \<lparr> trim_velocity = 30, trim_alpha = 0, trim_theta = 0, trim_q = 0, trim_altitude = 0,
          trim_CL = 0, trim_CD = 0, trim_elevator = 0, trim_thrust = 0 \<rparr> = Inr hq
      \<and> hq_short_period hq = Some a \<and> sp_damping_ratio a = 3 / 5 \<and> sp_level a = 1
      \<and> sp_acceptable a
      \<and> hq_phugoid hq = Some b \<and> ph_damping_ratio b = 0 \<and> ph_level b = 3 \<and> ph_acceptable b"
    by clarsimp
next
  from handling_quality_levels [OF example_one_pair]
  show "\<exists>hq.
      evaluate_handling_qualities (\<lambda>A. [Complex (- 1) 0, Complex (- 3) 0, Complex (- 3) 4, Complex (- 3) (- 4)])
        (\<lambda>v. [3, 2, 1, 0]) AircraftModel
        \<lparr> trim_velocity = 30, trim_alpha = 0, trim_theta = 0, trim_q = 0, trim_altitude = 0,
          trim_CL = 0, trim_CD = 0, trim_elevator = 0, trim_thrust = 0 \<rparr> = Inr hq
      \<and> hq_short_period hq = None \<and> hq_phugoid hq = None"
    by clarsimp
qed

subsection \<open>Simulation runs\<close>

lemma law_preserves_configuration:
  "approach_law self state dt = Inr (self', e, t) \<Longrightarrow> reset self' = reset self"
  "glide_slope_law self state d dt = Inr (self', e, t) \<Longrightarrow> reset self' = reset self"
  "flare_law self state dt = Inr (self', e, t) \<Longrightarrow> reset self' = reset self"
  "touchdown_law self state = Inr (self', e, t) \<Longrightarrow> reset self' = reset self"
  by (auto simp add: approach_law_def glide_slope_law_def flare_law_def touchdown_law_def
        reset_def Let_def split: if_splits)

lemma update_phase_preserves_configuration:
  "reset (update_phase self a d) = reset self"
  by (simp add: update_phase_def reset_def)

lemma compute_control_preserves_configuration:
  assumes "compute_control self state d dt = Inr (self', control)"
  shows "reset self' = reset self"
proof -
  let ?s = "update_phase self (state_altitude state) d"
  from assms have "reset self' = reset ?s"
    by (cases "phase ?s")
       (auto simp add: compute_control_def Let_def law_preserves_configuration
          split: sum.splits)
  then show ?thesis by (simp add: update_phase_preserves_configuration)
qed

text \<open>
  An invariant rule for the simulation loop: a property of the loop state that holds at
  entry and is kept by every iteration holds of the returned histories.
\<close>

lemma simulate_loop_invariant:
  assumes run: "simulate_loop ac xtd dur dt ls = Some (Inr (c', ts, ss, cs))"
    and init: "I ls"
    and step: "\<And>c t u w q theta x h ths shs chs c2 control s2.
        I (c, t, (u, w, q, theta, x, h), ths, shs, chs) \<Longrightarrow>
        compute_control c (current_state (u, w, q, theta, x, h)) (xtd - x) dt = Inr (c2, control) \<Longrightarrow>
        rk4_step ac (u, w, q, theta, x, h) t control dt = Inr s2 \<Longrightarrow>
        I (c2, t + dt, s2, ths @ [t + dt], shs @ [s2], chs @ [control])"
  shows "\<exists>t s. I (c', t, s, ts, ss, cs)"
proof -
  define P where "P = (\<lambda>a b (d::real) e l
        (r :: error + LandingController \<times> real list \<times> state_vector list \<times> control list). a = ac \<longrightarrow> b = xtd \<longrightarrow> e = dt \<longrightarrow> I l \<longrightarrow>
           (\<forall>c' ts ss cs. r = Inr (c', ts, ss, cs) \<longrightarrow> (\<exists>t s. I (c', t, s, ts, ss, cs))))"
  have "P ac xtd dur dt ls (Inr (c', ts, ss, cs))"
  proof (rule simulate_loop.raw_induct [where P = P, OF _ run])
    fix f ac' x_touchdown duration dt' loop_state r
    assume IH: "\<And>a b d e l y. f a b d e l = Some y \<Longrightarrow> P a b d e l y"
      and body: "(case loop_state of
        (controller, t, state, time_history, state_history, control_history) \<Rightarrow>
     (case state of (u, w, q, theta, x, h) \<Rightarrow>
        if t < duration \<and> h > 0 then
          let distance_to_touchdown = x_touchdown - x in
          (case compute_control controller (current_state state) distance_to_touchdown dt' of
             Inl e \<Rightarrow> Some (Inl e)
           | Inr (controller, control) \<Rightarrow>
          (case rk4_step ac' state t control dt' of
             Inl e \<Rightarrow> Some (Inl e)
           | Inr state \<Rightarrow>
               let t = t + dt';
                   time_history = time_history @ [t];
                   state_history = state_history @ [state];
                   control_history = control_history @ [control]
               in
               if snd (snd (snd (snd (snd state)))) \<le> 0
               then Some (Inr (controller, time_history, state_history, control_history))
               else f ac' x_touchdown duration dt'
                      (controller, t, state, time_history, state_history, control_history)))
        else Some (Inr (controller, time_history, state_history, control_history)))) = Some r"
    show "P ac' x_touchdown duration dt' loop_state r"
      unfolding P_def
    proof (intro impI allI)
      fix c' ts ss cs
      assume eq: "ac' = ac" "x_touchdown = xtd" "dt' = dt"
        and inv: "I loop_state" and r: "r = Inr (c', ts, ss, cs)"
      obtain c t u w q theta x h ths shs chs where
        ls: "loop_state = (c, t, (u, w, q, theta, x, h), ths, shs, chs)"
        by (metis prod_cases3)
      show "\<exists>t s. I (c', t, s, ts, ss, cs)"
      proof (cases "t < duration \<and> 0 < h")
        case False
        with body ls r have "(c', ts, ss, cs) = (c, ths, shs, chs)" by auto
        with inv ls show ?thesis by blast
      next
        case True
        note cond = this
        from body cond ls r obtain c2 control where
          cc: "compute_control c (current_state (u, w, q, theta, x, h)) (xtd - x) dt = Inr (c2, control)"
          unfolding eq by (auto simp add: Let_def split: sum.splits)
        from body cond ls r cc obtain s2 where
          rk: "rk4_step ac (u, w, q, theta, x, h) t control dt = Inr s2"
          unfolding eq by (auto simp add: Let_def split: sum.splits)
        from step [OF inv [unfolded ls] cc rk]
        have inv2: "I (c2, t + dt, s2, ths @ [t + dt], shs @ [s2], chs @ [control])" .
        show ?thesis
        proof (cases "snd (snd (snd (snd (snd s2)))) \<le> 0")
          case True
          with body cond ls r cc rk have
            "(c', ts, ss, cs) = (c2, ths @ [t + dt], shs @ [s2], chs @ [control])"
            unfolding eq by (simp add: Let_def)
          with inv2 show ?thesis by blast
        next
          case False
          with body cond ls r cc rk have
            "f ac xtd duration dt
               (c2, t + dt, s2, ths @ [t + dt], shs @ [s2], chs @ [control]) = Some r"
            unfolding eq by (simp add: Let_def)
          from IH [OF this, unfolded P_def] inv2 r show ?thesis by blast
        qed
      qed
    qed
  qed
  with init show ?thesis unfolding P_def by blast
qed

text \<open>
  With a positive time step the loop ends: the elapsed time reaches the duration after
  finitely many steps, unless the ground or an error ends it before.
\<close>

lemma simulate_loop_returns_or_raises:
  assumes "0 < dt"
  shows "\<exists>r. simulate_loop ac xtd dur dt (c, t, s, ths, shs, chs) = Some r"
proof (induction "nat \<lceil>(dur - t) / dt\<rceil>" arbitrary: c t s ths shs chs)
  case 0
  with assms have "dur - t \<le> 0"
    by (simp add: divide_le_0_iff)
  then show ?case
    by (subst simulate_loop.simps) (simp split: prod.splits)
next
  case (Suc n)
  have n: "n = nat \<lceil>(dur - (t + dt)) / dt\<rceil>"
  proof -
    from assms have "(dur - (t + dt)) / dt = (dur - t) / dt - 1"
      by (simp add: field_simps)
    then have "\<lceil>(dur - (t + dt)) / dt\<rceil> = \<lceil>(dur - t) / dt\<rceil> - 1" by simp
    with Suc(2) show ?thesis by simp
  qed
  show ?case
    by (subst simulate_loop.simps)
       (simp add: Let_def Suc(1) [OF n] split: prod.splits sum.splits)
qed

lemma simulate_landing_returns_or_raises:
  assumes "0 < dt"
  shows "\<exists>r. simulate_landing ac controller initial duration dt = Some r"
  unfolding simulate_landing_def Let_def
  by (rule simulate_loop_returns_or_raises [OF assms])

lemma reset_reset: "reset (reset self) = reset self"
  by (simp add: reset_def)


lemma simulate_landing_preserves_configuration:
  assumes "simulate_landing ac controller initial duration dt
             = Some (Inr (controller', ts, ss, cs))"
  shows "reset controller' = reset controller"
proof -
  let ?I = "\<lambda>ls :: LandingController \<times> real \<times> state_vector \<times> real list
                  \<times> state_vector list \<times> control list.
              reset (fst ls) = reset controller"
  from assms have run: "simulate_loop ac
       (case initial_x_touchdown initial of None \<Rightarrow> 3000 | Some v \<Rightarrow> v) duration dt
       (reset controller, 0,
        (initial_u initial, initial_w initial, initial_q initial,
         initial_theta initial, initial_x initial, initial_h initial),
        [0],
        [(initial_u initial, initial_w initial, initial_q initial,
          initial_theta initial, initial_x initial, initial_h initial)],
        []) = Some (Inr (controller', ts, ss, cs))"
    by (simp add: simulate_landing_def Let_def)
  have "\<exists>t s. ?I (controller', t, s, ts, ss, cs)"
  proof (rule simulate_loop_invariant [where I = ?I, OF run])
    show "?I (reset controller, 0,
        (initial_u initial, initial_w initial, initial_q initial,
         initial_theta initial, initial_x initial, initial_h initial),
        [0],
        [(initial_u initial, initial_w initial, initial_q initial,
          initial_theta initial, initial_x initial, initial_h initial)],
        [])"
      by (simp add: reset_reset)
  next
    fix c t u w q theta x h ths shs chs c2 control s2
    assume "?I (c, t, (u, w, q, theta, x, h), ths, shs, chs)"
      and "compute_control c (current_state (u, w, q, theta, x, h))
             ((case initial_x_touchdown initial of None \<Rightarrow> 3000 | Some v \<Rightarrow> v) - x) dt
           = Inr (c2, control)"
    then show "?I (c2, t + dt, s2, ths @ [t + dt], shs @ [s2], chs @ [control])"
      using compute_control_preserves_configuration [of c _ _ dt c2 control] by simp
  qed
  then show ?thesis by simp
qed

text \<open>
  A run of one step with the aircraft model, level at 30 m/s and 300 m, with
  \<open>dt = duration = 0.005\<close>.  The four stage states of the Runge-Kutta step stay in a box
  around the initial state in which the accelerations are bounded, so the airspeed is not
  zero at any stage and the step returns a state.
\<close>

lemma abs_mult_le:
  fixes a b :: real
  assumes "\<bar>a\<bar> \<le> A" "\<bar>b\<bar> \<le> B"
  shows "\<bar>a * b\<bar> \<le> A * B"
proof -
  have "\<bar>a * b\<bar> = \<bar>a\<bar> * \<bar>b\<bar>" by (rule abs_mult)
  also have "\<dots> \<le> A * B"
    using assms by (intro mult_mono) auto
  finally show ?thesis .
qed

lemma arctan2_bound:
  assumes "0 < x"
  shows "\<bar>arctan2 y x\<bar> < 2"
proof -
  have "\<bar>arctan (y / x)\<bar> < pi / 2"
    using arctan_lbound [of "y / x"] arctan_ubound [of "y / x"] by (simp add: abs_less_iff)
  also have "pi / 2 < 2" by (rule pi_half_less_two)
  finally show ?thesis using assms by (simp add: arctan2_def)
qed

lemma dynamics_in_box:
  assumes u: "29 \<le> u" "u \<le> 31" and w: "\<bar>w\<bar> \<le> 1" and q: "\<bar>q\<bar> \<le> 1 / 10"
    and e: "\<bar>control_elevator c\<bar> \<le> 4 / 10"
    and thr: "0 \<le> control_throttle c" "control_throttle c \<le> 1"
  shows "\<exists>ud wd qd xd hd.
           longitudinal_dynamics AircraftModel (u, w, q, th, x, h) t c
             = Inr (ud, wd, qd, q, xd, hd)
           \<and> \<bar>ud\<bar> \<le> 17 \<and> \<bar>wd\<bar> \<le> 30 \<and> \<bar>qd\<bar> \<le> 15"
proof -
  define V where "V = sqrt (u ^ 2 + w ^ 2)"
  define al where "al = arctan2 w u"
  define qS where "qS = 1225 / 2000 * V ^ 2 * (162 / 10)"
  define CL where "CL = clip (28 / 100 + 458 / 100 * al + 43 / 100 * control_elevator c)
                          (- (15 / 10)) (18 / 10)"
  define CD where "CD = max (31 / 1000 + 13 / 100 * al ^ 2 + 6 / 100 * \<bar>control_elevator c\<bar>)
                          (2 / 100)"
  define T where "T = control_throttle c * 1200"
  define Tc where "Tc = T * cos al"
  define Ts where "Ts = T * sin al"
  define D where "D = qS * CD"
  define L where "L = qS * CL"
  define gs where "gs = 10791 * sin th"
  define gc where "gc = 10791 * cos th"
  define X where "X = Tc - D - gs"
  define Z where "Z = - Ts - L + gc"
  define qv where "qv = q / (2 * V)"
  define Cm where "Cm = 4 / 100 - 61 / 100 * al - 186 / 10 * qv
                         - 128 / 100 * control_elevator c"
  define M where "M = qS * (15 / 10 * Cm)"
  define wq where "wq = w * q"
  define uq where "uq = u * q"
  have w2: "w ^ 2 \<le> 1"
  proof -
    from w have "\<bar>w\<bar> * \<bar>w\<bar> \<le> 1 * 1" by (intro mult_mono) auto
    then show ?thesis by (simp add: power2_eq_square)
  qed
  have u2: "u ^ 2 \<le> 961"
  proof -
    from u have "u * u \<le> 31 * 31" by (intro mult_mono) auto
    then show ?thesis by (simp add: power2_eq_square)
  qed
  have V2: "V ^ 2 = u ^ 2 + w ^ 2" by (simp add: V_def)
  have Vu: "u \<le> V"
  proof -
    have "sqrt (u ^ 2) \<le> sqrt (u ^ 2 + w ^ 2)" by (rule real_sqrt_le_mono) simp
    with u show ?thesis by (simp add: V_def)
  qed
  with u have V29: "29 \<le> V" by simp
  then have Vpos: "0 < V" by simp
  have qS0: "0 \<le> qS" by (simp add: qS_def)
  have qS1: "qS \<le> 9546"
    unfolding qS_def using V2 u2 w2 by arith
  have al2: "\<bar>al\<bar> < 2" unfolding al_def using u by (intro arctan2_bound) simp
  then have alsq: "al ^ 2 \<le> 4"
  proof -
    from al2 have "\<bar>al\<bar> * \<bar>al\<bar> \<le> 2 * 2" by (intro mult_mono) auto
    then show ?thesis by (simp add: power2_eq_square)
  qed
  have CLb: "\<bar>CL\<bar> \<le> 18 / 10"
  proof -
    have "- (15 / 10) \<le> CL \<and> CL \<le> 18 / 10" unfolding CL_def by (rule clip_bounds) simp
    then show ?thesis by arith
  qed
  have CDb: "\<bar>CD\<bar> \<le> 575 / 1000"
    unfolding CD_def using alsq e by arith
  have Tb: "\<bar>T\<bar> \<le> 1200" unfolding T_def using thr by arith
  have Db: "\<bar>D\<bar> \<le> 5489"
  proof -
    have "\<bar>qS * CD\<bar> \<le> 9546 * (575 / 1000)"
      using qS0 qS1 CDb by (intro abs_mult_le) auto
    then show ?thesis unfolding D_def by arith
  qed
  have Lb: "\<bar>L\<bar> \<le> 17183"
  proof -
    have "\<bar>qS * CL\<bar> \<le> 9546 * (18 / 10)"
      using qS0 qS1 CLb by (intro abs_mult_le) auto
    then show ?thesis unfolding L_def by arith
  qed
  have Tcb: "\<bar>Tc\<bar> \<le> 1200"
  proof -
    have "\<bar>T * cos al\<bar> \<le> 1200 * 1" using Tb by (intro abs_mult_le) auto
    then show ?thesis unfolding Tc_def by arith
  qed
  have Tsb: "\<bar>Ts\<bar> \<le> 1200"
  proof -
    have "\<bar>T * sin al\<bar> \<le> 1200 * 1" using Tb by (intro abs_mult_le) auto
    then show ?thesis unfolding Ts_def by arith
  qed
  have gsb: "\<bar>gs\<bar> \<le> 10791"
  proof -
    have "\<bar>10791 * sin th\<bar> \<le> 10791 * 1" by (intro abs_mult_le) auto
    then show ?thesis unfolding gs_def by arith
  qed
  have gcb: "\<bar>gc\<bar> \<le> 10791"
  proof -
    have "\<bar>10791 * cos th\<bar> \<le> 10791 * 1" by (intro abs_mult_le) auto
    then show ?thesis unfolding gc_def by arith
  qed
  have wqb: "\<bar>wq\<bar> \<le> 1 / 10"
  proof -
    have "\<bar>w * q\<bar> \<le> 1 * (1 / 10)" using w q by (intro abs_mult_le) auto
    then show ?thesis unfolding wq_def by arith
  qed
  have uqb: "\<bar>uq\<bar> \<le> 31 / 10"
  proof -
    have "\<bar>u\<bar> \<le> 31" using u by arith
    then have "\<bar>u * q\<bar> \<le> 31 * (1 / 10)" using q by (intro abs_mult_le) auto
    then show ?thesis unfolding uq_def by arith
  qed
  have Xb: "\<bar>X\<bar> \<le> 17480"
    unfolding X_def using Tcb Db gsb by arith
  have Zb: "\<bar>Z\<bar> \<le> 29174"
    unfolding Z_def using Tsb Lb gcb by arith
  have ud: "\<bar>X / 1100 + wq\<bar> \<le> 17"
    using Xb wqb by arith
  have wd: "\<bar>Z / 1100 - uq\<bar> \<le> 30"
    using Zb uqb by arith
  have qvb: "\<bar>qv\<bar> \<le> 1 / 580"
  proof -
    have "\<bar>q / (2 * V)\<bar> = \<bar>q\<bar> / (2 * V)" using Vpos by simp
    also have "\<dots> \<le> (1 / 10) / (2 * V)" using q Vpos by (intro divide_right_mono) auto
    also have "\<dots> \<le> (1 / 10) / 58" using V29 by (intro divide_left_mono) auto
    finally show ?thesis unfolding qv_def by simp
  qed
  have Cmb: "\<bar>Cm\<bar> \<le> 181 / 100"
    unfolding Cm_def using al2 qvb e by arith
  have Mb: "\<bar>M\<bar> \<le> 25920"
  proof -
    have "\<bar>15 / 10 * Cm\<bar> \<le> 15 / 10 * (181 / 100)" using Cmb by arith
    with qS0 qS1 have "\<bar>qS * (15 / 10 * Cm)\<bar> \<le> 9546 * (15 / 10 * (181 / 100))"
      by (intro abs_mult_le) auto
    then show ?thesis unfolding M_def by arith
  qed
  have qd: "\<bar>M / 1824\<bar> \<le> 15" using Mb by arith
  have V0: "2 * V \<noteq> 0" "u \<noteq> 0" using Vpos u by simp_all
  have "longitudinal_dynamics AircraftModel (u, w, q, th, x, h) t c
          = Inr (X / 1100 + wq, Z / 1100 - uq, M / 1824, q,
                 u * cos th + w * sin th, u * sin th - w * cos th)"
    using V0
    by (simp add: longitudinal_dynamics_def AircraftModel_def Let_def
          V_def [symmetric] al_def [symmetric] X_def Z_def M_def Cm_def CL_def CD_def T_def
          qS_def Tc_def Ts_def D_def L_def gs_def gc_def qv_def wq_def uq_def V2)
       (simp add: algebra_simps)
  with ud wd qd show ?thesis by blast
qed

lemma example_rk4_step:
  "\<exists>s1. rk4_step AircraftModel (30, 0, 0, 0, 0, 300) 0
          \<lparr> control_elevator = 0, control_throttle = 1, control_phase = Approach \<rparr> (1 / 200) = Inr s1"
proof -
  let ?c = "\<lparr> control_elevator = 0, control_throttle = 1, control_phase = Approach \<rparr>"
  have c: "\<bar>control_elevator ?c\<bar> \<le> 4 / 10" "0 \<le> control_throttle ?c"
    "control_throttle ?c \<le> 1"
    by simp_all
  have "\<exists>ud wd qd xd hd.
          longitudinal_dynamics AircraftModel (30, 0, 0, 0, 0, 300) 0 ?c
            = Inr (ud, wd, qd, 0, xd, hd)
          \<and> \<bar>ud\<bar> \<le> 17 \<and> \<bar>wd\<bar> \<le> 30 \<and> \<bar>qd\<bar> \<le> 15"
    by (rule dynamics_in_box [OF _ _ _ _ c]) simp_all
  then obtain ud1 wd1 qd1 xd1 hd1 where
    k1: "longitudinal_dynamics AircraftModel (30, 0, 0, 0, 0, 300) 0 ?c
           = Inr (ud1, wd1, qd1, 0, xd1, hd1)"
    and b1: "\<bar>ud1\<bar> \<le> 17" "\<bar>wd1\<bar> \<le> 30" "\<bar>qd1\<bar> \<le> 15"
    by blast
  have s2: "vadd (30, 0, 0, 0, 0, 300) (smul (0.5 * (1 / 200)) (ud1, wd1, qd1, 0, xd1, hd1))
              = (30 + ud1 / 400, wd1 / 400, qd1 / 400, 0, xd1 / 400, 300 + hd1 / 400)"
    by (simp add: vadd_def smul_def)
  have "\<exists>ud wd qd xd hd.
          longitudinal_dynamics AircraftModel
            (30 + ud1 / 400, wd1 / 400, qd1 / 400, 0, xd1 / 400, 300 + hd1 / 400)
            (0 + 0.5 * (1 / 200)) ?c
            = Inr (ud, wd, qd, qd1 / 400, xd, hd)
          \<and> \<bar>ud\<bar> \<le> 17 \<and> \<bar>wd\<bar> \<le> 30 \<and> \<bar>qd\<bar> \<le> 15"
    using b1 by (intro dynamics_in_box [OF _ _ _ _ c]) arith+
  then obtain ud2 wd2 qd2 xd2 hd2 where
    k2: "longitudinal_dynamics AircraftModel
            (30 + ud1 / 400, wd1 / 400, qd1 / 400, 0, xd1 / 400, 300 + hd1 / 400)
            (0 + 0.5 * (1 / 200)) ?c
           = Inr (ud2, wd2, qd2, qd1 / 400, xd2, hd2)"
    and b2: "\<bar>ud2\<bar> \<le> 17" "\<bar>wd2\<bar> \<le> 30" "\<bar>qd2\<bar> \<le> 15"
    by blast
  have s3: "vadd (30, 0, 0, 0, 0, 300)
              (smul (0.5 * (1 / 200)) (ud2, wd2, qd2, qd1 / 400, xd2, hd2))
              = (30 + ud2 / 400, wd2 / 400, qd2 / 400, qd1 / 160000, xd2 / 400,
                 300 + hd2 / 400)"
    by (simp add: vadd_def smul_def)
  have "\<exists>ud wd qd xd hd.
          longitudinal_dynamics AircraftModel
            (30 + ud2 / 400, wd2 / 400, qd2 / 400, qd1 / 160000, xd2 / 400, 300 + hd2 / 400)
            (0 + 0.5 * (1 / 200)) ?c
            = Inr (ud, wd, qd, qd2 / 400, xd, hd)
          \<and> \<bar>ud\<bar> \<le> 17 \<and> \<bar>wd\<bar> \<le> 30 \<and> \<bar>qd\<bar> \<le> 15"
    using b2 by (intro dynamics_in_box [OF _ _ _ _ c]) arith+
  then obtain ud3 wd3 qd3 xd3 hd3 where
    k3: "longitudinal_dynamics AircraftModel
            (30 + ud2 / 400, wd2 / 400, qd2 / 400, qd1 / 160000, xd2 / 400, 300 + hd2 / 400)
            (0 + 0.5 * (1 / 200)) ?c
           = Inr (ud3, wd3, qd3, qd2 / 400, xd3, hd3)"
    and b3: "\<bar>ud3\<bar> \<le> 17" "\<bar>wd3\<bar> \<le> 30" "\<bar>qd3\<bar> \<le> 15"
    by blast
  have s4: "vadd (30, 0, 0, 0, 0, 300) (smul (1 / 200) (ud3, wd3, qd3, qd2 / 400, xd3, hd3))
              = (30 + ud3 / 200, wd3 / 200, qd3 / 200, qd2 / 80000, xd3 / 200,
                 300 + hd3 / 200)"
    by (simp add: vadd_def smul_def)
  have "\<exists>ud wd qd xd hd.
          longitudinal_dynamics AircraftModel
            (30 + ud3 / 200, wd3 / 200, qd3 / 200, qd2 / 80000, xd3 / 200, 300 + hd3 / 200)
            (0 + 1 / 200) ?c
            = Inr (ud, wd, qd, qd3 / 200, xd, hd)
          \<and> \<bar>ud\<bar> \<le> 17 \<and> \<bar>wd\<bar> \<le> 30 \<and> \<bar>qd\<bar> \<le> 15"
    using b3 by (intro dynamics_in_box [OF _ _ _ _ c]) arith+
  then obtain ud4 wd4 qd4 xd4 hd4 where
    k4: "longitudinal_dynamics AircraftModel
            (30 + ud3 / 200, wd3 / 200, qd3 / 200, qd2 / 80000, xd3 / 200, 300 + hd3 / 200)
            (0 + 1 / 200) ?c
           = Inr (ud4, wd4, qd4, qd3 / 200, xd4, hd4)"
    by blast
  show ?thesis
    unfolding rk4_step_def
    by (simp only: k1 s2 k2 s3 k3 s4 k4 sum.case) (simp split: prod.splits)
qed

lemma sqrt_900: "sqrt 900 = 30"
  using real_sqrt_abs [of 30] by simp

lemma example_current_state: "current_state (30, 0, 0, 0, 0, 300) =
   \<lparr> state_velocity = 30, state_altitude = 300, state_theta = 0, state_q = 0, state_alpha = 0 \<rparr>"
  by (simp add: current_state_def arctan2_def sqrt_900)

lemma example_compute_control:
  "compute_control (reset (LandingController_init AircraftModel))
      \<lparr> state_velocity = 30, state_altitude = 300, state_theta = 0, state_q = 0, state_alpha = 0 \<rparr>
      3000 (1 / 200)
   = Inr ((LandingController_init AircraftModel \<lparr> int_vel := 3 / 200 \<rparr>),
          \<lparr> control_elevator = 0, control_throttle = 1, control_phase = Approach \<rparr>)"
  by (simp add: compute_control_def update_phase_def approach_law_def reset_def
        LandingController_init_def clip_def Let_def)

lemma example_run:
  "\<exists>s1. simulate_landing AircraftModel (LandingController_init AircraftModel)
      \<lparr> initial_u = 30, initial_w = 0, initial_q = 0, initial_theta = 0, initial_x = 0,
          initial_h = 300, initial_x_touchdown = Some 3000 \<rparr> (1 / 200) (1 / 200)
   = Some (Inr ((LandingController_init AircraftModel \<lparr> int_vel := 3 / 200 \<rparr>),
                [0, 1 / 200], [(30, 0, 0, 0, 0, 300), s1],
                [\<lparr> control_elevator = 0, control_throttle = 1, control_phase = Approach \<rparr>]))"
proof -
  from example_rk4_step obtain s1 where
    rk: "rk4_step AircraftModel (30, 0, 0, 0, 0, 300) 0
          \<lparr> control_elevator = 0, control_throttle = 1, control_phase = Approach \<rparr> (1 / 200) = Inr s1" ..
  have "simulate_landing AircraftModel (LandingController_init AircraftModel)
      \<lparr> initial_u = 30, initial_w = 0, initial_q = 0, initial_theta = 0, initial_x = 0,
          initial_h = 300, initial_x_touchdown = Some 3000 \<rparr> (1 / 200) (1 / 200)
   = Some (Inr ((LandingController_init AircraftModel \<lparr> int_vel := 3 / 200 \<rparr>),
                [0, 1 / 200], [(30, 0, 0, 0, 0, 300), s1],
                [\<lparr> control_elevator = 0, control_throttle = 1, control_phase = Approach \<rparr>]))"
    apply (simp add: simulate_landing_def Let_def)
    apply (subst simulate_loop.simps)
    apply (simp add: example_current_state example_compute_control rk Let_def)
    apply (subst simulate_loop.simps)
    apply (simp split: prod.splits)
    done
  then show ?thesis ..
qed

text \<open>
  C3: the result of a run (whether it returns, the histories, and the controller it
  leaves) does not depend on the integrators, previous errors and phase the controller has
  before the run; and running again with the controller a run has left gives the same
  histories and leaves the same controller.
\<close>

theorem simulate_landing_reproducible:
  "simulate_landing ac
     (controller \<lparr> int_theta := a1, int_alt := a2, int_vel := a3,
                   prev_error_theta := a4, prev_error_alt := a5, phase := p \<rparr>)
     initial duration dt
     = simulate_landing ac controller initial duration dt
   \<and> (\<forall>controller' histories.
         simulate_landing ac controller initial duration dt = Some (Inr (controller', histories))
         \<longrightarrow> simulate_landing ac controller' initial duration dt
               = Some (Inr (controller', histories)))"
proof (intro conjI allI impI)
  have "reset (controller \<lparr> int_theta := a1, int_alt := a2, int_vel := a3,
                   prev_error_theta := a4, prev_error_alt := a5, phase := p \<rparr>)
          = reset controller"
    by (simp add: reset_def)
  then show "simulate_landing ac
     (controller \<lparr> int_theta := a1, int_alt := a2, int_vel := a3,
                   prev_error_theta := a4, prev_error_alt := a5, phase := p \<rparr>)
     initial duration dt
     = simulate_landing ac controller initial duration dt"
    by (simp add: simulate_landing_def Let_def)
next
  fix controller' histories
  assume run: "simulate_landing ac controller initial duration dt
                 = Some (Inr (controller', histories))"
  obtain ts ss cs where h: "histories = (ts, ss, cs)" by (metis prod_cases3)
  from simulate_landing_preserves_configuration [OF run [unfolded h]]
  have "reset controller' = reset controller" .
  then have "simulate_landing ac controller' initial duration dt
               = simulate_landing ac controller initial duration dt"
    by (simp add: simulate_landing_def Let_def)
  with run show "simulate_landing ac controller' initial duration dt
                   = Some (Inr (controller', histories))"
    by simp
qed

theorem simulate_landing_reproducible_witness:
  "\<exists>s1.
     simulate_landing AircraftModel (LandingController_init AircraftModel)
       \<lparr> initial_u = 30, initial_w = 0, initial_q = 0, initial_theta = 0, initial_x = 0,
          initial_h = 300, initial_x_touchdown = Some 3000 \<rparr> (1 / 200) (1 / 200)
     = Some (Inr ((LandingController_init AircraftModel \<lparr> int_vel := 3 / 200 \<rparr>),
                [0, 1 / 200], [(30, 0, 0, 0, 0, 300), s1],
                [\<lparr> control_elevator = 0, control_throttle = 1, control_phase = Approach \<rparr>]))
     \<and> simulate_landing AircraftModel
       (LandingController_init AircraftModel \<lparr> int_vel := 3 / 200 \<rparr>)
       \<lparr> initial_u = 30, initial_w = 0, initial_q = 0, initial_theta = 0, initial_x = 0,
          initial_h = 300, initial_x_touchdown = Some 3000 \<rparr> (1 / 200) (1 / 200)
     = Some (Inr ((LandingController_init AircraftModel \<lparr> int_vel := 3 / 200 \<rparr>),
                [0, 1 / 200], [(30, 0, 0, 0, 0, 300), s1],
                [\<lparr> control_elevator = 0, control_throttle = 1, control_phase = Approach \<rparr>]))
     \<and> simulate_landing AircraftModel
       (LandingController_init AircraftModel
         \<lparr> int_theta := 5, int_alt := - 50, int_vel := 12, prev_error_theta := 1 / 10,
           prev_error_alt := - 3, phase := Flare \<rparr>)
       \<lparr> initial_u = 30, initial_w = 0, initial_q = 0, initial_theta = 0, initial_x = 0,
          initial_h = 300, initial_x_touchdown = Some 3000 \<rparr> (1 / 200) (1 / 200)
     = Some (Inr ((LandingController_init AircraftModel \<lparr> int_vel := 3 / 200 \<rparr>),
                [0, 1 / 200], [(30, 0, 0, 0, 0, 300), s1],
                [\<lparr> control_elevator = 0, control_throttle = 1, control_phase = Approach \<rparr>]))"
proof -
  from example_run obtain s1 where
    run: "simulate_landing AircraftModel (LandingController_init AircraftModel)
       \<lparr> initial_u = 30, initial_w = 0, initial_q = 0, initial_theta = 0, initial_x = 0,
          initial_h = 300, initial_x_touchdown = Some 3000 \<rparr> (1 / 200) (1 / 200)
     = Some (Inr ((LandingController_init AircraftModel \<lparr> int_vel := 3 / 200 \<rparr>),
                [0, 1 / 200], [(30, 0, 0, 0, 0, 300), s1],
                [\<lparr> control_elevator = 0, control_throttle = 1, control_phase = Approach \<rparr>]))" ..
  note t = simulate_landing_reproducible [where ac = AircraftModel
      and controller = "LandingController_init AircraftModel"
      and ?a1.0 = 5 and ?a2.0 = "- 50" and ?a3.0 = 12 and ?a4.0 = "1 / 10" and ?a5.0 = "- 3"
      and p = Flare
      and initial = "\<lparr> initial_u = 30, initial_w = 0, initial_q = 0, initial_theta = 0, initial_x = 0,
          initial_h = 300, initial_x_touchdown = Some 3000 \<rparr>"
      and duration = "1 / 200" and dt = "1 / 200"]
  from t have perturbed: "simulate_landing AircraftModel
       (LandingController_init AircraftModel
         \<lparr> int_theta := 5, int_alt := - 50, int_vel := 12, prev_error_theta := 1 / 10,
           prev_error_alt := - 3, phase := Flare \<rparr>)
       \<lparr> initial_u = 30, initial_w = 0, initial_q = 0, initial_theta = 0, initial_x = 0,
          initial_h = 300, initial_x_touchdown = Some 3000 \<rparr> (1 / 200) (1 / 200)
    = simulate_landing AircraftModel (LandingController_init AircraftModel)
       \<lparr> initial_u = 30, initial_w = 0, initial_q = 0, initial_theta = 0, initial_x = 0,
          initial_h = 300, initial_x_touchdown = Some 3000 \<rparr> (1 / 200) (1 / 200)"
    by (rule conjunct1)
  from t have rerun: "\<forall>controller' histories.
         simulate_landing AircraftModel (LandingController_init AircraftModel)
           \<lparr> initial_u = 30, initial_w = 0, initial_q = 0, initial_theta = 0, initial_x = 0,
          initial_h = 300, initial_x_touchdown = Some 3000 \<rparr> (1 / 200) (1 / 200) = Some (Inr (controller', histories))
         \<longrightarrow> simulate_landing AircraftModel controller'
           \<lparr> initial_u = 30, initial_w = 0, initial_q = 0, initial_theta = 0, initial_x = 0,
          initial_h = 300, initial_x_touchdown = Some 3000 \<rparr> (1 / 200) (1 / 200) = Some (Inr (controller', histories))"
    by (rule conjunct2)
  from rerun run have again: "simulate_landing AircraftModel
       (LandingController_init AircraftModel \<lparr> int_vel := 3 / 200 \<rparr>)
       \<lparr> initial_u = 30, initial_w = 0, initial_q = 0, initial_theta = 0, initial_x = 0,
          initial_h = 300, initial_x_touchdown = Some 3000 \<rparr> (1 / 200) (1 / 200)
     = Some (Inr ((LandingController_init AircraftModel \<lparr> int_vel := 3 / 200 \<rparr>),
                [0, 1 / 200], [(30, 0, 0, 0, 0, 300), s1],
                [\<lparr> control_elevator = 0, control_throttle = 1, control_phase = Approach \<rparr>]))"
    by blast
  from run again perturbed show ?thesis
    by (intro exI [of _ s1]) (simp only: simp_thms)
qed



end
